theory Spec2Isabelle
  imports Complex_Main
begin

section \<open>The store: tables, row-level policies and triggers\<close>

text \<open>
  The tables are those of the migration scripts. A \<open>uuid\<close> is kept in the text form the
  client sees (\<open>id: string\<close>), a \<open>timestamptz\<close> is an instant in microseconds since
  1970-01-01T00:00:00Z (the store's resolution), a \<open>date\<close> is a day number since
  1970-01-01, and a JavaScript \<open>Date\<close> is an instant in milliseconds since the same
  epoch. The columns \<open>created_at\<close> and \<open>updated_at\<close>, which are filled by defaults and
  by \<open>update_updated_at_column\<close> and are read by nothing below, are left out of the rows.
\<close>

type_synonym uuid = string
type_synonym timestamptz = int
type_synonym date = int
type_synonym js_time = int

datatype pg_error =
    NotNullViolation
  | CheckViolation
  | UniqueViolation
  | ForeignKeyViolation
  | RowLevelSecurityViolation
  | NumericValueOutOfRange
  | InvalidTextRepresentation
  | InvalidDatetimeFormat
  | InfiniteRecursion
  | NotASingleRow

record profile =
  p_id :: uuid
  p_full_name :: string
  p_email :: string
  p_role :: string
  p_status :: string

record project =
  pr_id :: uuid
  pr_name :: string
  pr_description :: "string option"
  pr_manager_id :: "uuid option"
  pr_start_date :: "date option"
  pr_end_date :: "date option"
  pr_status :: string

record task =
  t_id :: uuid
  t_name :: string
  t_description :: "string option"
  t_project_id :: "uuid option"
  t_assigned_to :: "uuid option"
  t_status :: string
  t_start_date :: "date option"
  t_end_date :: "date option"
  t_created_by :: uuid

record time_log =
  tl_id :: uuid
  tl_user_id :: uuid
  tl_task_id :: uuid
  tl_project_id :: "uuid option"
  tl_start_time :: timestamptz
  tl_end_time :: "timestamptz option"
  tl_duration_minutes :: "int option"
  tl_date :: date
  tl_approval_status :: string

record project_member =
  pm_project_id :: uuid
  pm_user_id :: uuid

record store =
  profiles :: "profile list"
  projects :: "project list"
  project_members :: "project_member list"
  tasks :: "task list"
  time_logs :: "time_log list"

subsection \<open>Row-level security: who is bound, and the expansion of policies\<close>

text \<open>
  The pages talk to the store as the role \<open>authenticated\<close>, to which every policy of the
  migration scripts is granted. The owner of the tables (the role that ran the scripts,
  or an operator who edits a row in the database by hand, as the README asks for the
  first admin) is not bound by the policies; triggers and constraints bind both.
\<close>

datatype caller = Authenticated uuid | TableOwner

datatype relation = Profiles | Projects | ProjectMembers | Tasks | TimeLogs

datatype command = SELECT | INSERT | UPDATE | DELETE

text \<open>
  For each table and command, the tables that the qualifiers (USING and WITH CHECK) of
  its policies sub-select, a table once for each policy that sub-selects it, in the order
  of the scripts. Policies without a sub-select ("Users can view own profile", "Users can
  view own tasks", "Users can view own time logs", "Users can update own tasks", "Users
  can update own time logs", "Project managers can update their projects", "Users can
  delete own time logs") add nothing. \<open>project_members\<close> has no policy for UPDATE.
\<close>

fun policy_subselects :: "relation \<Rightarrow> command \<Rightarrow> relation list" where
  "policy_subselects Profiles SELECT = [Profiles]"
| "policy_subselects Profiles INSERT = [Profiles]"
| "policy_subselects Profiles UPDATE = [Profiles, Profiles]"
| "policy_subselects Profiles DELETE = [Profiles]"
| "policy_subselects Projects SELECT = [Profiles, Profiles, ProjectMembers]"
| "policy_subselects Projects INSERT = [Profiles]"
| "policy_subselects Projects UPDATE = [Profiles]"
| "policy_subselects Projects DELETE = [Profiles]"
| "policy_subselects ProjectMembers SELECT = [Profiles, Projects, ProjectMembers]"
| "policy_subselects ProjectMembers INSERT = [Profiles]"
| "policy_subselects ProjectMembers UPDATE = []"
| "policy_subselects ProjectMembers DELETE = [Profiles]"
| "policy_subselects Tasks SELECT = [Profiles, Projects, ProjectMembers]"
| "policy_subselects Tasks INSERT = [Profiles, Projects, ProjectMembers]"
| "policy_subselects Tasks UPDATE = [Profiles, Projects]"
| "policy_subselects Tasks DELETE = [Profiles]"
| "policy_subselects TimeLogs SELECT = [Profiles, Projects]"
| "policy_subselects TimeLogs INSERT = [Tasks]"
| "policy_subselects TimeLogs UPDATE = [Profiles]"
| "policy_subselects TimeLogs DELETE = [Profiles]"

text \<open>
  Before a statement of a bound caller runs, the store expands the policies of every
  table the statement reads, and of every table those policies sub-select, and so on. A
  table that is met again while its own policies are being expanded stops the statement
  with "infinite recursion detected in policy" (SQLSTATE 42P17). This happens whatever
  the rows are. \<open>recurses n active r\<close>: reading \<open>r\<close> while the tables \<open>active\<close> are being
  expanded meets one of them again. The chain of tables being expanded has no
  repetition, so the depth 5, the number of tables, is never used up.
\<close>

fun recurses :: "nat \<Rightarrow> relation list \<Rightarrow> relation \<Rightarrow> bool" where
  "recurses 0 active r = (r \<in> set active)"
| "recurses (Suc n) active r =
     (r \<in> set active \<or> (\<exists>s \<in> set (policy_subselects r SELECT). recurses n (r # active) s))"

definition policy_recursion :: "relation \<Rightarrow> command list \<Rightarrow> bool" where
  "policy_recursion rel cmds =
     (\<exists>c \<in> set cmds. \<exists>s \<in> set (policy_subselects rel c). recurses 5 [rel] s)"

text \<open>
  What the store does with the policies of table \<open>rel\<close> for a statement that needs the
  policies of the commands \<open>cmds\<close>: nothing for the owner, the error for a bound caller
  whose policies recurse, and otherwise the policies are to be evaluated for the
  caller's id.
\<close>

datatype row_security = Refused pg_error | Unbound | Bound uuid

definition row_security :: "caller \<Rightarrow> relation \<Rightarrow> command list \<Rightarrow> row_security" where
  "row_security c rel cmds =
     (case c of
        TableOwner \<Rightarrow> Unbound
      | Authenticated uid \<Rightarrow>
          if policy_recursion rel cmds then Refused InfiniteRecursion else Bound uid)"

text \<open>
  A sub-select on \<open>rel\<close> inside a policy of \<open>outer\<close>, with \<open>found\<close> what it finds when
  it can be expanded.
\<close>

definition subselect :: "relation \<Rightarrow> relation \<Rightarrow> 'a \<Rightarrow> pg_error + 'a" where
  "subselect outer rel found =
     (if recurses 5 [outer] rel then Inl InfiniteRecursion else Inr found)"

text \<open>
  The permissive policies of a command are combined with OR and the conditions of one
  qualifier, here, with AND; an error in any of them is the error of the whole.
\<close>

fun any_policy :: "(pg_error + bool) list \<Rightarrow> pg_error + bool" where
  "any_policy [] = Inr False"
| "any_policy (Inl err # qs) = Inl err"
| "any_policy (Inr b # qs) =
     (case any_policy qs of Inl err \<Rightarrow> Inl err | Inr c \<Rightarrow> Inr (b \<or> c))"

fun every_qual :: "(pg_error + bool) list \<Rightarrow> pg_error + bool" where
  "every_qual [] = Inr True"
| "every_qual (Inl err # qs) = Inl err"
| "every_qual (Inr b # qs) =
     (case every_qual qs of Inl err \<Rightarrow> Inl err | Inr c \<Rightarrow> Inr (b \<and> c))"

text \<open>
  The sub-select that every admin policy repeats, as it stands in a policy of \<open>outer\<close>:
  \<^verbatim>\<open>EXISTS (SELECT 1 FROM profiles WHERE profiles.id = auth.uid() AND profiles.role = 'admin')\<close>.
\<close>

definition is_admin :: "relation \<Rightarrow> store \<Rightarrow> uuid \<Rightarrow> pg_error + bool" where
  "is_admin outer db uid =
     subselect outer Profiles (\<exists>p \<in> set (profiles db). p_id p = uid \<and> p_role p = ''admin'')"

text \<open>
  Rows of a table that pass a condition which may raise, and the rows of a table after
  each went through a step which may raise. One error is the error of the statement, and
  the table stays as it was.
\<close>

fun select_rows :: "('a \<Rightarrow> pg_error + bool) \<Rightarrow> 'a list \<Rightarrow> pg_error + 'a list" where
  "select_rows q [] = Inr []"
| "select_rows q (r # rs) =
     (case q r of
        Inl err \<Rightarrow> Inl err
      | Inr b \<Rightarrow>
          (case select_rows q rs of
             Inl err \<Rightarrow> Inl err
           | Inr rs' \<Rightarrow> Inr (if b then r # rs' else rs')))"

fun update_rows :: "('a \<Rightarrow> pg_error + 'a) \<Rightarrow> 'a list \<Rightarrow> pg_error + 'a list" where
  "update_rows f [] = Inr []"
| "update_rows f (r # rs) =
     (case f r of
        Inl err \<Rightarrow> Inl err
      | Inr r' \<Rightarrow> (case update_rows f rs of Inl err \<Rightarrow> Inl err | Inr rs' \<Rightarrow> Inr (r' # rs')))"

subsection \<open>The store's input functions\<close>

text \<open>
  The text of a form field reaches the store as it was typed; the input function of the
  column type decides what it means, and rejects the statement when it means nothing.
  These functions belong to the store and are parameters here.
\<close>

record pg_input =
  uuid_in :: "string \<Rightarrow> uuid option"
  date_in :: "string \<Rightarrow> date option"
  timestamptz_in :: "string \<Rightarrow> timestamptz option"

subsection \<open>profiles: policies and update\<close>

definition users_can_view_own_profile :: "uuid \<Rightarrow> profile \<Rightarrow> bool" where
  "users_can_view_own_profile uid r = (uid = p_id r)"

text \<open>"Users can view own profile" OR "Admins can view all profiles".\<close>

definition profiles_select_policy :: "store \<Rightarrow> uuid \<Rightarrow> profile \<Rightarrow> pg_error + bool" where
  "profiles_select_policy db uid r =
     any_policy [Inr (users_can_view_own_profile uid r), is_admin Profiles db uid]"

text \<open>
  The scalar sub-selects \<^verbatim>\<open>(SELECT role FROM profiles WHERE id = auth.uid())\<close> and
  \<^verbatim>\<open>(SELECT status FROM profiles WHERE id = auth.uid())\<close> of "Users can update own
  profile": null when the caller has no profile; \<open>id\<close> is the primary key, so there is
  at most one such row.
\<close>

definition own_role :: "store \<Rightarrow> uuid \<Rightarrow> pg_error + string option" where
  "own_role db uid =
     subselect Profiles Profiles (map_option p_role (find (\<lambda>p. p_id p = uid) (profiles db)))"

definition own_status :: "store \<Rightarrow> uuid \<Rightarrow> pg_error + string option" where
  "own_status db uid =
     subselect Profiles Profiles (map_option p_status (find (\<lambda>p. p_id p = uid) (profiles db)))"

definition users_can_update_own_profile_using :: "uuid \<Rightarrow> profile \<Rightarrow> bool" where
  "users_can_update_own_profile_using uid r = (uid = p_id r)"

text \<open>
  \<^verbatim>\<open>
  WITH CHECK (auth.uid() = id
    AND role = (SELECT role FROM profiles WHERE id = auth.uid())
    AND status = (SELECT status FROM profiles WHERE id = auth.uid()))
  \<close>
  on the row as it would be after the update. A comparison with null is not true.
\<close>

definition users_can_update_own_profile_check ::
    "store \<Rightarrow> uuid \<Rightarrow> profile \<Rightarrow> pg_error + bool" where
  "users_can_update_own_profile_check db uid r =
     every_qual
       [Inr (uid = p_id r),
        (case own_role db uid of Inl err \<Rightarrow> Inl err | Inr x \<Rightarrow> Inr (x = Some (p_role r))),
        (case own_status db uid of Inl err \<Rightarrow> Inl err | Inr x \<Rightarrow> Inr (x = Some (p_status r)))]"

definition profiles_update_using :: "store \<Rightarrow> uuid \<Rightarrow> profile \<Rightarrow> pg_error + bool" where
  "profiles_update_using db uid r =
     any_policy [Inr (users_can_update_own_profile_using uid r), is_admin Profiles db uid]"

definition profiles_update_check :: "store \<Rightarrow> uuid \<Rightarrow> profile \<Rightarrow> pg_error + bool" where
  "profiles_update_check db uid r =
     any_policy [users_can_update_own_profile_check db uid r, is_admin Profiles db uid]"

definition role_check :: "string \<Rightarrow> bool" where
  "role_check s = (s \<in> {''admin'', ''project_manager'', ''employee''})"

definition status_check :: "string \<Rightarrow> bool" where
  "status_check s = (s \<in> {''active'', ''inactive''})"

text \<open>The columns an update may set (the \<open>Update\<close> type of \<open>profiles\<close>); absent keys keep
  the old value.\<close>

record profile_update =
  upd_id :: "uuid option"
  upd_full_name :: "string option"
  upd_email :: "string option"
  upd_role :: "string option"
  upd_status :: "string option"

definition apply_profile_update :: "profile_update \<Rightarrow> profile \<Rightarrow> profile" where
  "apply_profile_update v r =
     \<lparr>p_id = (case upd_id v of None \<Rightarrow> p_id r | Some x \<Rightarrow> x),
      p_full_name = (case upd_full_name v of None \<Rightarrow> p_full_name r | Some x \<Rightarrow> x),
      p_email = (case upd_email v of None \<Rightarrow> p_email r | Some x \<Rightarrow> x),
      p_role = (case upd_role v of None \<Rightarrow> p_role r | Some x \<Rightarrow> x),
      p_status = (case upd_status v of None \<Rightarrow> p_status r | Some x \<Rightarrow> x)\<rparr>"

definition profile_constraints :: "profile \<Rightarrow> pg_error + profile" where
  "profile_constraints r =
     (if \<not> role_check (p_role r) \<or> \<not> status_check (p_status r) then Inl CheckViolation
      else Inr r)"

text \<open>
  One row under \<^verbatim>\<open>update(v).eq('id', target)\<close>. For a bound caller, a row that the
  select policies or the USING clauses exclude is skipped without an error, and a new
  row that fails every WITH CHECK rejects the statement.
\<close>

definition update_one_profile ::
    "store \<Rightarrow> row_security \<Rightarrow> uuid \<Rightarrow> profile_update \<Rightarrow> profile \<Rightarrow> pg_error + profile" where
  "update_one_profile db sec target v r =
     (if p_id r \<noteq> target then Inr r
      else (case sec of
              Refused err \<Rightarrow> Inl err
            | Unbound \<Rightarrow> profile_constraints (apply_profile_update v r)
            | Bound uid \<Rightarrow>
                (case every_qual [profiles_select_policy db uid r,
                                  profiles_update_using db uid r] of
                   Inl err \<Rightarrow> Inl err
                 | Inr False \<Rightarrow> Inr r
                 | Inr True \<Rightarrow>
                     (case profiles_update_check db uid (apply_profile_update v r) of
                        Inl err \<Rightarrow> Inl err
                      | Inr False \<Rightarrow> Inl RowLevelSecurityViolation
                      | Inr True \<Rightarrow> profile_constraints (apply_profile_update v r)))))"

text \<open>
  The statement: the policies are expanded first, then each row is treated, then the
  primary key and the unique \<open>email\<close> are checked. The foreign keys on \<open>profiles.id\<close>
  are not modelled; they can only reject more updates.
\<close>

definition update_profiles ::
    "caller \<Rightarrow> uuid \<Rightarrow> profile_update \<Rightarrow> store \<Rightarrow> pg_error + store" where
  "update_profiles c target v db =
     (case row_security c Profiles [UPDATE, SELECT] of
        Refused err \<Rightarrow> Inl err
      | sec \<Rightarrow>
          (case update_rows (update_one_profile db sec target v) (profiles db) of
             Inl err \<Rightarrow> Inl err
           | Inr rows \<Rightarrow>
               if \<not> distinct (map p_id rows) \<or> \<not> distinct (map p_email rows)
               then Inl UniqueViolation
               else Inr (db\<lparr>profiles := rows\<rparr>)))"

subsection \<open>projects: policies, insert, update and select\<close>

text \<open>
  "Admins can view all projects" OR "Project managers can view their projects" OR
  "Project members can view assigned projects".
\<close>

definition projects_select_policy :: "store \<Rightarrow> uuid \<Rightarrow> project \<Rightarrow> pg_error + bool" where
  "projects_select_policy db uid r =
     any_policy
       [is_admin Projects db uid,
        any_policy
          [Inr (pr_manager_id r = Some uid),
           subselect Projects Profiles
             (\<exists>p \<in> set (profiles db). p_id p = uid
                                      \<and> p_role p \<in> {''admin'', ''project_manager''})],
        subselect Projects ProjectMembers
          (\<exists>m \<in> set (project_members db). pm_project_id m = pr_id r \<and> pm_user_id m = uid)]"

text \<open>"Admins can update all projects" OR "Project managers can update their projects";
  USING and WITH CHECK read the same.\<close>

definition projects_update_policy :: "store \<Rightarrow> uuid \<Rightarrow> project \<Rightarrow> pg_error + bool" where
  "projects_update_policy db uid r =
     any_policy [is_admin Projects db uid, Inr (pr_manager_id r = Some uid)]"

definition project_status_check :: "string \<Rightarrow> bool" where
  "project_status_check s = (s \<in> {''planned'', ''in_progress'', ''completed''})"

text \<open>
  The state of the project form, and at the same time the object that \<open>handleSubmit\<close>
  sends: six keys, each a string.
\<close>

record project_form =
  pf_name :: string
  pf_description :: string
  pf_manager_id :: string
  pf_start_date :: string
  pf_end_date :: string
  pf_status :: string

text \<open>
  What the six texts mean as a row: \<open>name\<close>, \<open>description\<close> and \<open>status\<close> are \<open>text\<close>
  columns and take the string as it is, the empty string included; \<open>manager_id\<close> and
  the dates go through the input functions. No key is null, so no column is.
\<close>

definition project_of_form :: "pg_input \<Rightarrow> uuid \<Rightarrow> project_form \<Rightarrow> pg_error + project" where
  "project_of_form pg i v =
     (case (uuid_in pg (pf_manager_id v), date_in pg (pf_start_date v),
            date_in pg (pf_end_date v)) of
        (Some m, Some s, Some e) \<Rightarrow>
          Inr \<lparr>pr_id = i, pr_name = pf_name v, pr_description = Some (pf_description v),
               pr_manager_id = Some m, pr_start_date = Some s, pr_end_date = Some e,
               pr_status = pf_status v\<rparr>
      | _ \<Rightarrow> Inl InvalidTextRepresentation)"

definition project_constraints :: "store \<Rightarrow> project \<Rightarrow> pg_error + project" where
  "project_constraints db r =
     (if \<not> project_status_check (pr_status r) then Inl CheckViolation
      else if pr_manager_id r \<notin> Some ` p_id ` set (profiles db) then Inl ForeignKeyViolation
      else Inr r)"

text \<open>
  \<^verbatim>\<open>insert([formData])\<close>: the policies are expanded first; of them only "Admins can
  insert projects" allows an insert.
\<close>

definition insert_project ::
    "pg_input \<Rightarrow> caller \<Rightarrow> uuid \<Rightarrow> project_form \<Rightarrow> store \<Rightarrow> pg_error + store" where
  "insert_project pg c new_id v db =
     (case row_security c Projects [INSERT] of
        Refused err \<Rightarrow> Inl err
      | sec \<Rightarrow>
          (case project_of_form pg new_id v of
             Inl err \<Rightarrow> Inl err
           | Inr row \<Rightarrow>
               (case (case sec of Bound uid \<Rightarrow> is_admin Projects db uid | _ \<Rightarrow> Inr True) of
                  Inl err \<Rightarrow> Inl err
                | Inr False \<Rightarrow> Inl RowLevelSecurityViolation
                | Inr True \<Rightarrow>
                    (case project_constraints db row of
                       Inl err \<Rightarrow> Inl err
                     | Inr row' \<Rightarrow>
                         if new_id \<in> pr_id ` set (projects db) then Inl UniqueViolation
                         else Inr (db\<lparr>projects := projects db @ [row']\<rparr>)))))"

definition update_one_project ::
    "pg_input \<Rightarrow> store \<Rightarrow> row_security \<Rightarrow> uuid \<Rightarrow> project_form \<Rightarrow> project
       \<Rightarrow> pg_error + project" where
  "update_one_project pg db sec target v r =
     (if pr_id r \<noteq> target then Inr r
      else (case sec of
              Refused err \<Rightarrow> Inl err
            | Unbound \<Rightarrow>
                (case project_of_form pg (pr_id r) v of
                   Inl err \<Rightarrow> Inl err
                 | Inr r' \<Rightarrow> project_constraints db r')
            | Bound uid \<Rightarrow>
                (case every_qual [projects_select_policy db uid r,
                                  projects_update_policy db uid r] of
                   Inl err \<Rightarrow> Inl err
                 | Inr False \<Rightarrow> Inr r
                 | Inr True \<Rightarrow>
                     (case project_of_form pg (pr_id r) v of
                        Inl err \<Rightarrow> Inl err
                      | Inr r' \<Rightarrow>
                          (case projects_update_policy db uid r' of
                             Inl err \<Rightarrow> Inl err
                           | Inr False \<Rightarrow> Inl RowLevelSecurityViolation
                           | Inr True \<Rightarrow> project_constraints db r')))))"

definition update_project ::
    "pg_input \<Rightarrow> caller \<Rightarrow> uuid \<Rightarrow> project_form \<Rightarrow> store \<Rightarrow> pg_error + store" where
  "update_project pg c target v db =
     (case row_security c Projects [UPDATE, SELECT] of
        Refused err \<Rightarrow> Inl err
      | sec \<Rightarrow>
          (case update_rows (update_one_project pg db sec target v) (projects db) of
             Inl err \<Rightarrow> Inl err
           | Inr rows \<Rightarrow> Inr (db\<lparr>projects := rows\<rparr>)))"

text \<open>
  \<^verbatim>\<open>select('*').order('created_at', { ascending: false })\<close>: the table is kept in the
  order of insertion, which is the order of \<open>created_at\<close>, so the newest row comes first
  in the reverse.
\<close>

definition select_projects :: "caller \<Rightarrow> store \<Rightarrow> pg_error + project list" where
  "select_projects c db =
     (case row_security c Projects [SELECT] of
        Refused err \<Rightarrow> Inl err
      | Unbound \<Rightarrow> Inr (rev (projects db))
      | Bound uid \<Rightarrow>
          (case select_rows (projects_select_policy db uid) (projects db) of
             Inl err \<Rightarrow> Inl err
           | Inr rows \<Rightarrow> Inr (rev rows)))"

subsection \<open>tasks: select\<close>

definition users_can_view_own_tasks :: "uuid \<Rightarrow> task \<Rightarrow> bool" where
  "users_can_view_own_tasks uid t = (t_assigned_to t = Some uid \<or> t_created_by t = uid)"

text \<open>
  "Users can view own tasks" OR "Admins can view all tasks" OR "Project managers can view
  project tasks" OR "Project members can view project tasks".
\<close>

definition tasks_select_policy :: "store \<Rightarrow> uuid \<Rightarrow> task \<Rightarrow> pg_error + bool" where
  "tasks_select_policy db uid t =
     any_policy
       [Inr (users_can_view_own_tasks uid t),
        is_admin Tasks db uid,
        subselect Tasks Projects
          (\<exists>p \<in> set (projects db). Some (pr_id p) = t_project_id t \<and> pr_manager_id p = Some uid),
        subselect Tasks ProjectMembers
          (\<exists>m \<in> set (project_members db). Some (pm_project_id m) = t_project_id t
                                          \<and> pm_user_id m = uid)]"

text \<open>The rows of \<open>tasks\<close> that pass the filter \<open>cond\<close> of the query and the policies.\<close>

definition select_tasks :: "caller \<Rightarrow> (task \<Rightarrow> bool) \<Rightarrow> store \<Rightarrow> pg_error + task list" where
  "select_tasks c cond db =
     (case row_security c Tasks [SELECT] of
        Refused err \<Rightarrow> Inl err
      | Unbound \<Rightarrow> Inr (filter cond (tasks db))
      | Bound uid \<Rightarrow>
          select_rows (\<lambda>t. every_qual [Inr (cond t), tasks_select_policy db uid t]) (tasks db))"

subsection \<open>time\_logs: the duration trigger\<close>

text \<open>
  \<^verbatim>\<open>EXTRACT(EPOCH FROM (NEW.end_time - NEW.start_time))\<close> is the length of the interval in
  seconds, a \<open>numeric\<close> with the six fractional digits of the timestamps.
\<close>

definition extract_epoch :: "int \<Rightarrow> rat" where
  "extract_epoch micros = of_int micros / 1000000"

text \<open>
  \<open>duration_minutes\<close> is an \<open>integer\<close> column, so the assignment in the trigger casts
  the \<open>numeric\<close> quotient to \<open>integer\<close>. That cast rounds to the nearest integer, a tie
  going away from zero, and fails outside the 32-bit range. The division keeps enough
  fractional digits that rounding its result and rounding the exact quotient agree in
  that range, so the quotient is taken exactly. (Where \<open>EXTRACT\<close> yields
  \<open>double precision\<close>, as it did before version 14 of the store, the cast rounds as
  well, a tie going to the even neighbour; 1.5 becomes 2 either way.)
\<close>

definition numeric_to_int4 :: "rat \<Rightarrow> pg_error + int" where
  "numeric_to_int4 q =
     (let n = (if 0 \<le> q then \<lfloor>q + 1 / 2\<rfloor> else - \<lfloor>- q + 1 / 2\<rfloor>)
      in if - 2147483648 \<le> n \<and> n \<le> 2147483647 then Inr n
         else Inl NumericValueOutOfRange)"

text \<open>
  \<^verbatim>\<open>
  IF NEW.end_time IS NOT NULL THEN
    NEW.duration_minutes = EXTRACT(EPOCH FROM (NEW.end_time - NEW.start_time)) / 60;
  ELSE
    NEW.duration_minutes = NULL;
  END IF;
  RETURN NEW;
  \<close>
\<close>

definition calculate_time_log_duration :: "time_log \<Rightarrow> pg_error + time_log" where
  "calculate_time_log_duration NEW =
     (case tl_end_time NEW of
        Some e \<Rightarrow>
          (case numeric_to_int4 (extract_epoch (e - tl_start_time NEW) / 60) of
             Inl err \<Rightarrow> Inl err
           | Inr m \<Rightarrow> Inr (NEW\<lparr>tl_duration_minutes := Some m\<rparr>))
      | None \<Rightarrow> Inr (NEW\<lparr>tl_duration_minutes := None\<rparr>))"

subsection \<open>time\_logs: policies\<close>

definition users_can_view_own_time_logs :: "uuid \<Rightarrow> time_log \<Rightarrow> bool" where
  "users_can_view_own_time_logs uid r = (tl_user_id r = uid)"

text \<open>
  "Users can view own time logs" OR "Admins can view all time logs" OR "Project managers
  can view project time logs".
\<close>

definition time_logs_select_policy :: "store \<Rightarrow> uuid \<Rightarrow> time_log \<Rightarrow> pg_error + bool" where
  "time_logs_select_policy db uid r =
     any_policy
       [Inr (users_can_view_own_time_logs uid r),
        is_admin TimeLogs db uid,
        subselect TimeLogs Projects
          (\<exists>p \<in> set (projects db). Some (pr_id p) = tl_project_id r
                                   \<and> pr_manager_id p = Some uid)]"

text \<open>
  \<^verbatim>\<open>
  WITH CHECK (user_id = auth.uid()
    AND EXISTS (SELECT 1 FROM tasks WHERE tasks.id = task_id
                AND (tasks.assigned_to = auth.uid() OR tasks.created_by = auth.uid())))
  \<close>
\<close>

definition users_can_create_time_logs :: "store \<Rightarrow> uuid \<Rightarrow> time_log \<Rightarrow> pg_error + bool" where
  "users_can_create_time_logs db uid r =
     every_qual
       [Inr (tl_user_id r = uid),
        subselect TimeLogs Tasks
          (\<exists>t \<in> set (tasks db). t_id t = tl_task_id r
                                \<and> (t_assigned_to t = Some uid \<or> t_created_by t = uid))]"

definition users_can_update_own_time_logs_using :: "uuid \<Rightarrow> time_log \<Rightarrow> bool" where
  "users_can_update_own_time_logs_using uid r =
     (tl_user_id r = uid
      \<and> (tl_approval_status r = ''pending'' \<or> tl_approval_status r = ''approved''))"

definition users_can_update_own_time_logs_check :: "uuid \<Rightarrow> time_log \<Rightarrow> bool" where
  "users_can_update_own_time_logs_check uid r = (tl_user_id r = uid)"

text \<open>"Users can update own time logs" OR "Admins can update all time logs".\<close>

definition time_logs_update_using :: "store \<Rightarrow> uuid \<Rightarrow> time_log \<Rightarrow> pg_error + bool" where
  "time_logs_update_using db uid r =
     any_policy [Inr (users_can_update_own_time_logs_using uid r), is_admin TimeLogs db uid]"

definition time_logs_update_check :: "store \<Rightarrow> uuid \<Rightarrow> time_log \<Rightarrow> pg_error + bool" where
  "time_logs_update_check db uid r =
     any_policy [Inr (users_can_update_own_time_logs_check uid r), is_admin TimeLogs db uid]"

definition approval_status_check :: "string \<Rightarrow> bool" where
  "approval_status_check s = (s \<in> {''pending'', ''approved'', ''rejected''})"

subsection \<open>time\_logs: insert, update and select\<close>

text \<open>
  What the client sends in an insert: the keys that \<open>startTimer\<close> and
  \<open>handleManualEntry\<close> write. A key that is absent or whose value is \<open>undefined\<close> is
  \<open>None\<close>. The store supplies \<open>id\<close> from \<open>gen_random_uuid()\<close> (the argument
  \<open>new_id\<close>), leaves \<open>project_id\<close> null and defaults \<open>approval_status\<close> to
  \<open>'approved'\<close>.
\<close>

record time_log_insert =
  ins_user_id :: "uuid option"
  ins_task_id :: "uuid option"
  ins_start_time :: "timestamptz option"
  ins_end_time :: "timestamptz option"
  ins_date :: "date option"
  ins_approval_status :: "string option"

text \<open>
  What the policies say of a new row: "Users can create time logs" and, when the client
  asks for the row back (\<open>.select()\<close>, the flag \<open>returning\<close>), the select policies.
\<close>

definition time_logs_insert_check ::
    "store \<Rightarrow> row_security \<Rightarrow> bool \<Rightarrow> time_log \<Rightarrow> pg_error + bool" where
  "time_logs_insert_check db sec returning row =
     (case sec of
        Refused err \<Rightarrow> Inl err
      | Unbound \<Rightarrow> Inr True
      | Bound uid \<Rightarrow>
          every_qual (users_can_create_time_logs db uid row
                      # (if returning then [time_logs_select_policy db uid row] else [])))"

text \<open>
  The statement: the policies are expanded first; then the row goes through the BEFORE
  INSERT trigger, the policies and the constraints of the table. Every failure rejects
  the statement; the client does not tell the kinds apart.
\<close>

definition insert_time_log ::
    "caller \<Rightarrow> uuid \<Rightarrow> bool \<Rightarrow> time_log_insert \<Rightarrow> store
       \<Rightarrow> pg_error + (store \<times> time_log)" where
  "insert_time_log c new_id returning v db =
     (case row_security c TimeLogs (INSERT # (if returning then [SELECT] else [])) of
        Refused err \<Rightarrow> Inl err
      | sec \<Rightarrow>
          (case (ins_user_id v, ins_task_id v, ins_start_time v, ins_date v) of
             (Some u, Some k, Some s, Some d) \<Rightarrow>
               (case calculate_time_log_duration
                       \<lparr>tl_id = new_id, tl_user_id = u, tl_task_id = k, tl_project_id = None,
                        tl_start_time = s, tl_end_time = ins_end_time v,
                        tl_duration_minutes = None, tl_date = d,
                        tl_approval_status =
                          (case ins_approval_status v of
                             None \<Rightarrow> ''approved'' | Some a \<Rightarrow> a)\<rparr> of
                  Inl err \<Rightarrow> Inl err
                | Inr row \<Rightarrow>
                    (case time_logs_insert_check db sec returning row of
                       Inl err \<Rightarrow> Inl err
                     | Inr False \<Rightarrow> Inl RowLevelSecurityViolation
                     | Inr True \<Rightarrow>
                         if \<not> approval_status_check (tl_approval_status row)
                           then Inl CheckViolation
                         else if new_id \<in> tl_id ` set (time_logs db) then Inl UniqueViolation
                         else if u \<notin> p_id ` set (profiles db) \<or> k \<notin> t_id ` set (tasks db)
                           then Inl ForeignKeyViolation
                         else Inr (db\<lparr>time_logs := time_logs db @ [row]\<rparr>, row)))
           | _ \<Rightarrow> Inl NotNullViolation))"

text \<open>
  One row under \<^verbatim>\<open>update({ end_time }).eq('id', target)\<close>: it gets the new \<open>end_time\<close>
  and goes through the BEFORE UPDATE trigger. For a bound caller, a row that the select
  policies or the USING clauses exclude is skipped without an error, and the new row
  must pass a WITH CHECK.
\<close>

definition update_one_end_time ::
    "store \<Rightarrow> row_security \<Rightarrow> uuid \<Rightarrow> timestamptz \<Rightarrow> time_log \<Rightarrow> pg_error + time_log" where
  "update_one_end_time db sec target e r =
     (if tl_id r \<noteq> target then Inr r
      else (case sec of
              Refused err \<Rightarrow> Inl err
            | Unbound \<Rightarrow> calculate_time_log_duration (r\<lparr>tl_end_time := Some e\<rparr>)
            | Bound uid \<Rightarrow>
                (case every_qual [time_logs_select_policy db uid r,
                                  time_logs_update_using db uid r] of
                   Inl err \<Rightarrow> Inl err
                 | Inr False \<Rightarrow> Inr r
                 | Inr True \<Rightarrow>
                     (case calculate_time_log_duration (r\<lparr>tl_end_time := Some e\<rparr>) of
                        Inl err \<Rightarrow> Inl err
                      | Inr r' \<Rightarrow>
                          (case time_logs_update_check db uid r' of
                             Inl err \<Rightarrow> Inl err
                           | Inr False \<Rightarrow> Inl RowLevelSecurityViolation
                           | Inr True \<Rightarrow> Inr r')))))"

definition update_time_log_end_time ::
    "caller \<Rightarrow> uuid \<Rightarrow> timestamptz \<Rightarrow> store \<Rightarrow> pg_error + store" where
  "update_time_log_end_time c target e db =
     (case row_security c TimeLogs [UPDATE, SELECT] of
        Refused err \<Rightarrow> Inl err
      | sec \<Rightarrow>
          (case update_rows (update_one_end_time db sec target e) (time_logs db) of
             Inl err \<Rightarrow> Inl err
           | Inr rows \<Rightarrow> Inr (db\<lparr>time_logs := rows\<rparr>)))"

text \<open>The rows of \<open>time_logs\<close> that pass the filter \<open>cond\<close> of the query and the policies.\<close>

definition select_time_logs ::
    "caller \<Rightarrow> (time_log \<Rightarrow> bool) \<Rightarrow> store \<Rightarrow> pg_error + time_log list" where
  "select_time_logs c cond db =
     (case row_security c TimeLogs [SELECT] of
        Refused err \<Rightarrow> Inl err
      | Unbound \<Rightarrow> Inr (filter cond (time_logs db))
      | Bound uid \<Rightarrow>
          select_rows (\<lambda>r. every_qual [Inr (cond r), time_logs_select_policy db uid r])
            (time_logs db))"

section \<open>The Time Tracking page\<close>

text \<open>
  What the page gets from \<open>useAuth()\<close> and from the session: the caller's identity as the
  store sees it (\<open>auth.uid()\<close>), the loaded profile (null until it is loaded) and the
  \<open>isAdmin\<close> flag. Every statement of a page reaches the store as
  \<open>Authenticated (session_uid auth)\<close>.
\<close>

record auth_context =
  session_uid :: uuid
  profile :: "profile option"
  isAdmin :: bool

record manual_form =
  f_task_id :: string
  f_start_time :: string
  f_end_time :: string
  f_date :: string

record time_tracking =
  timeLogs :: "time_log list"
  tt_tasks :: "(uuid \<times> string) list"
  activeLog :: "time_log option"
  loading :: bool
  modalOpen :: bool
  elapsedTime :: int
  formData :: manual_form

text \<open>The store, the state of the page and what was written with \<open>console.error\<close>.\<close>

record 'page app =
  db :: store
  page :: "'page"
  console :: "string list"

type_synonym tt_app = "time_tracking app"

text \<open>
  \<open>fetchTimeLogs\<close>:
  \<^verbatim>\<open>.eq('user_id', profile?.id).order('start_time', { ascending: false }).limit(50)\<close>.
  Rows with equal \<open>start_time\<close> keep the order of the table here; the store promises
  no order among them. Without a profile the filter is no uuid and the query fails.
\<close>

definition fetchTimeLogs :: "auth_context \<Rightarrow> tt_app \<Rightarrow> tt_app" where
  "fetchTimeLogs auth w =
     (case (case profile auth of
              None \<Rightarrow> Inl InvalidTextRepresentation
            | Some p \<Rightarrow>
                select_time_logs (Authenticated (session_uid auth))
                  (\<lambda>r. tl_user_id r = p_id p) (db w)) of
        Inl err \<Rightarrow>
          w\<lparr>page := (page w)\<lparr>loading := False\<rparr>,
            console := console w @ [''Error fetching time logs:'']\<rparr>
      | Inr data \<Rightarrow>
          w\<lparr>page := (page w)\<lparr>timeLogs := take 50 (sort_key (\<lambda>r. - tl_start_time r) data),
                                loading := False\<rparr>\<rparr>)"

text \<open>
  \<open>maybeSingle()\<close>: no row is \<open>null\<close>, one row is that row, more rows are an error with
  \<open>data\<close> null.
\<close>

definition maybeSingle :: "'a list \<Rightarrow> pg_error + 'a option" where
  "maybeSingle rows =
     (case rows of [] \<Rightarrow> Inr None | [r] \<Rightarrow> Inr (Some r) | _ \<Rightarrow> Inl NotASingleRow)"

text \<open>
  \<open>checkActiveLog\<close> reads only \<open>data\<close>, so every error leaves \<open>activeLog\<close> null.
\<close>

definition checkActiveLog :: "auth_context \<Rightarrow> tt_app \<Rightarrow> tt_app" where
  "checkActiveLog auth w =
     w\<lparr>page := (page w)\<lparr>activeLog :=
        (case profile auth of
           None \<Rightarrow> None
         | Some p \<Rightarrow>
             (case select_time_logs (Authenticated (session_uid auth))
                     (\<lambda>r. tl_user_id r = p_id p \<and> tl_end_time r = None) (db w) of
                Inl err \<Rightarrow> None
              | Inr rows \<Rightarrow>
                  (case maybeSingle rows of Inl err \<Rightarrow> None | Inr data \<Rightarrow> data)))\<rparr>\<rparr>"

text \<open>
  \<open>new Date().toISOString()\<close> prints an instant in UTC with milliseconds. From year 1
  to year 9999 the store reads the text back as the same instant; outside, the text has
  a sign and six digits for the year (or the year 0000), which the store does not read.
\<close>

definition iso_readable :: "js_time \<Rightarrow> bool" where
  "iso_readable t = (- 62135596800000 \<le> t \<and> t \<le> 253402300799999)"

text \<open>
  \<open>startTimer(taskId)\<close>. \<open>now\<close> is \<open>new Date()\<close>; the part of its text before
  \<open>'T'\<close> is its UTC day. There is no check of \<open>activeLog\<close> or of the table before the
  insert, and the payload has no \<open>end_time\<close> and no \<open>approval_status\<close>.
\<close>

definition startTimer :: "auth_context \<Rightarrow> uuid \<Rightarrow> js_time \<Rightarrow> uuid \<Rightarrow> tt_app \<Rightarrow> tt_app" where
  "startTimer auth taskId now new_id w =
     (case (if \<not> iso_readable now then Inl InvalidDatetimeFormat
            else insert_time_log (Authenticated (session_uid auth)) new_id True
                   \<lparr>ins_user_id = map_option p_id (profile auth),
                    ins_task_id = Some taskId,
                    ins_start_time = Some (now * 1000),
                    ins_end_time = None,
                    ins_date = Some (now div 86400000),
                    ins_approval_status = None\<rparr> (db w)) of
        Inl err \<Rightarrow> w\<lparr>console := console w @ [''Error starting timer:'']\<rparr>
      | Inr (d, data) \<Rightarrow> w\<lparr>db := d, page := (page w)\<lparr>activeLog := Some data\<rparr>\<rparr>)"

definition stopTimer :: "auth_context \<Rightarrow> js_time \<Rightarrow> tt_app \<Rightarrow> tt_app" where
  "stopTimer auth now w =
     (case activeLog (page w) of
        None \<Rightarrow> w
      | Some l \<Rightarrow>
          (case (if \<not> iso_readable now then Inl InvalidDatetimeFormat
                 else update_time_log_end_time (Authenticated (session_uid auth)) (tl_id l)
                        (now * 1000) (db w)) of
             Inl err \<Rightarrow> w\<lparr>console := console w @ [''Error stopping timer:'']\<rparr>
           | Inr d \<Rightarrow>
               fetchTimeLogs auth
                 (w\<lparr>db := d, page := (page w)\<lparr>activeLog := None, elapsedTime := 0\<rparr>\<rparr>)))"

text \<open>
  \<open>handleManualEntry\<close>. The four form texts go to the store as they are; \<open>today\<close> is
  the text \<open>new Date().toISOString().split('T')[0]\<close> that the form is reset to.
\<close>

definition handleManualEntry ::
    "pg_input \<Rightarrow> auth_context \<Rightarrow> string \<Rightarrow> uuid \<Rightarrow> tt_app \<Rightarrow> tt_app" where
  "handleManualEntry pg auth today new_id w =
     (case (uuid_in pg (f_task_id (formData (page w))),
            timestamptz_in pg (f_start_time (formData (page w))),
            timestamptz_in pg (f_end_time (formData (page w))),
            date_in pg (f_date (formData (page w)))) of
        (Some k, Some s, Some e, Some d) \<Rightarrow>
          (case insert_time_log (Authenticated (session_uid auth)) new_id False
                  \<lparr>ins_user_id = map_option p_id (profile auth),
                   ins_task_id = Some k,
                   ins_start_time = Some s,
                   ins_end_time = Some e,
                   ins_date = Some d,
                   ins_approval_status = Some ''pending''\<rparr> (db w) of
             Inl err \<Rightarrow> w\<lparr>console := console w @ [''Error adding manual entry:'']\<rparr>
           | Inr (d', data) \<Rightarrow>
               fetchTimeLogs auth
                 (w\<lparr>db := d',
                    page := (page w)\<lparr>modalOpen := False,
                      formData := \<lparr>f_task_id = [], f_start_time = [], f_end_time = [],
                                   f_date = today\<rparr>\<rparr>\<rparr>))
      | _ \<Rightarrow> w\<lparr>console := console w @ [''Error adding manual entry:'']\<rparr>)"

subsection \<open>What the page offers, and runs of one session\<close>

text \<open>
  While \<open>loading\<close> the page shows a spinner only. After that the card shows the stop
  button when \<open>activeLog\<close> is set and the start buttons otherwise; the manual entry form
  is in a dialog behind its own button. The browser's check of required form fields is
  not modelled, so the page is taken to offer a submit also for an incomplete form. The
  tick that recomputes \<open>elapsedTime\<close> every second for display is left out.
\<close>

datatype tt_event =
    FetchTimeLogs
  | CheckActiveLog
  | ClickStart uuid js_time uuid
  | ClickStop js_time
  | EditForm manual_form
  | OpenModal
  | CloseModal
  | SubmitManual string uuid

definition offered :: "tt_event \<Rightarrow> tt_app \<Rightarrow> bool" where
  "offered ev w =
     (case ev of
        FetchTimeLogs \<Rightarrow> True
      | CheckActiveLog \<Rightarrow> True
      | ClickStart taskId now new_id \<Rightarrow> \<not> loading (page w) \<and> activeLog (page w) = None
      | ClickStop now \<Rightarrow> \<not> loading (page w) \<and> activeLog (page w) \<noteq> None
      | EditForm fd \<Rightarrow> \<not> loading (page w) \<and> modalOpen (page w)
      | OpenModal \<Rightarrow> \<not> loading (page w)
      | CloseModal \<Rightarrow> \<not> loading (page w) \<and> modalOpen (page w)
      | SubmitManual today new_id \<Rightarrow> \<not> loading (page w) \<and> modalOpen (page w))"

definition perform :: "pg_input \<Rightarrow> auth_context \<Rightarrow> tt_event \<Rightarrow> tt_app \<Rightarrow> tt_app" where
  "perform pg auth ev w =
     (case ev of
        FetchTimeLogs \<Rightarrow> fetchTimeLogs auth w
      | CheckActiveLog \<Rightarrow> checkActiveLog auth w
      | ClickStart taskId now new_id \<Rightarrow> startTimer auth taskId now new_id w
      | ClickStop now \<Rightarrow> stopTimer auth now w
      | EditForm fd \<Rightarrow> w\<lparr>page := (page w)\<lparr>formData := fd\<rparr>\<rparr>
      | OpenModal \<Rightarrow> w\<lparr>page := (page w)\<lparr>modalOpen := True\<rparr>\<rparr>
      | CloseModal \<Rightarrow> w\<lparr>page := (page w)\<lparr>modalOpen := False\<rparr>\<rparr>
      | SubmitManual today new_id \<Rightarrow> handleManualEntry pg auth today new_id w)"

text \<open>
  One session, each action finished before the next; an action the page does not offer
  cannot be taken and is skipped.
\<close>

fun run :: "pg_input \<Rightarrow> auth_context \<Rightarrow> tt_event list \<Rightarrow> tt_app \<Rightarrow> tt_app" where
  "run pg auth [] w = w"
| "run pg auth (ev # evs) w =
     run pg auth evs (if offered ev w then perform pg auth ev w else w)"

text \<open>The rows of a user that count as running timers: \<open>end_time\<close> is null.\<close>

definition running :: "store \<Rightarrow> uuid \<Rightarrow> time_log list" where
  "running d u = filter (\<lambda>r. tl_user_id r = u \<and> tl_end_time r = None) (time_logs d)"

section \<open>The Dashboard\<close>

text \<open>
  \<open>new Date(t.end_date)\<close> of a date text \<open>YYYY-MM-DD\<close> is midnight UTC of that day.
\<close>

definition js_date_of_date :: "date \<Rightarrow> js_time" where
  "js_date_of_date day = day * 86400000"

text \<open>
  \<^verbatim>\<open>t.end_date && new Date(t.end_date) < new Date() && t.status !== 'completed'\<close>, with
  one reading \<open>now\<close> of the clock for the whole pass over the tasks.
\<close>

definition is_overdue :: "js_time \<Rightarrow> task \<Rightarrow> bool" where
  "is_overdue now t =
     (case t_end_date t of
        None \<Rightarrow> False
      | Some day \<Rightarrow> js_date_of_date day < now \<and> t_status t \<noteq> ''completed'')"

record Stats =
  totalTasks :: nat
  inProgressTasks :: nat
  completedTasks :: nat
  totalProjects :: nat
  totalTimeToday :: int
  overdueTasks :: nat

text \<open>
  The part of \<open>fetchDashboardData\<close> between the queries and \<open>setStats\<close>, which runs
  once the profile is loaded. Its inputs are
  what the three queries returned: the tasks and their count, the count of projects, and
  the \<open>duration_minutes\<close> of today's time logs; each is null when its query failed.
  \<open>x?.f(...) || 0\<close> is 0 for a null \<open>x\<close>.
\<close>

definition dashboard_stats ::
    "js_time \<Rightarrow> task list option \<Rightarrow> nat option \<Rightarrow> nat option \<Rightarrow> int option list option \<Rightarrow> Stats"
    where
  "dashboard_stats now fetched count projectCount logs =
     \<lparr>totalTasks = (case count of None \<Rightarrow> 0 | Some n \<Rightarrow> n),
      inProgressTasks =
        (case fetched of None \<Rightarrow> 0
         | Some ts \<Rightarrow> length (filter (\<lambda>t. t_status t = ''in_progress'') ts)),
      completedTasks =
        (case fetched of None \<Rightarrow> 0
         | Some ts \<Rightarrow> length (filter (\<lambda>t. t_status t = ''completed'') ts)),
      totalProjects = (case projectCount of None \<Rightarrow> 0 | Some n \<Rightarrow> n),
      totalTimeToday =
        (case logs of None \<Rightarrow> 0
         | Some ls \<Rightarrow> fold (\<lambda>l sum. sum + (case l of None \<Rightarrow> 0 | Some m \<Rightarrow> m)) ls 0),
      overdueTasks =
        (case fetched of None \<Rightarrow> 0 | Some ts \<Rightarrow> length (filter (is_overdue now) ts))\<rparr>"

section \<open>The navigation menu\<close>

record nav_item =
  to :: string
  label :: string
  roles :: "string list"

definition navItems :: "nav_item list" where
  "navItems =
     [\<lparr>to = ''/'', label = ''Dashboard'', roles = [''admin'', ''project_manager'', ''employee'']\<rparr>,
      \<lparr>to = ''/projects'', label = ''Projects'',
        roles = [''admin'', ''project_manager'', ''employee'']\<rparr>,
      \<lparr>to = ''/tasks'', label = ''Tasks'', roles = [''admin'', ''project_manager'', ''employee'']\<rparr>,
      \<lparr>to = ''/time-tracking'', label = ''Time Tracking'',
        roles = [''admin'', ''project_manager'', ''employee'']\<rparr>,
      \<lparr>to = ''/calendar'', label = ''Calendar'',
        roles = [''admin'', ''project_manager'', ''employee'']\<rparr>,
      \<lparr>to = ''/reports'', label = ''Reports'', roles = [''admin'', ''project_manager'']\<rparr>,
      \<lparr>to = ''/users'', label = ''Users'', roles = [''admin'']\<rparr>]"

text \<open>\<open>profile?.role || 'employee'\<close>: a null profile and an empty role count as employee.\<close>

definition role_or_employee :: "profile option \<Rightarrow> string" where
  "role_or_employee pro =
     (case pro of
        None \<Rightarrow> ''employee''
      | Some p \<Rightarrow> if p_role p = [] then ''employee'' else p_role p)"

definition filteredNavItems :: "profile option \<Rightarrow> nav_item list" where
  "filteredNavItems pro =
     filter (\<lambda>item. role_or_employee pro \<in> set (roles item)) navItems"

section \<open>The Users page\<close>

record users_form =
  uf_role :: string
  uf_status :: string

record users_page =
  users :: "profile list"
  u_loading :: bool
  u_modalOpen :: bool
  editingUser :: "profile option"
  u_formData :: users_form

text \<open>
  \<open>fetchUsers\<close>, given what the store answers to
  \<^verbatim>\<open>from('profiles').select('*').order('created_at', { ascending: false })\<close>.
\<close>

definition fetchUsers :: "pg_error + profile list \<Rightarrow> users_page \<Rightarrow> users_page" where
  "fetchUsers response st =
     (case response of
        Inl err \<Rightarrow> st\<lparr>u_loading := False\<rparr>
      | Inr data \<Rightarrow> st\<lparr>users := data, u_loading := False\<rparr>)"

text \<open>
  The effect that runs when the page is shown:
  \<^verbatim>\<open>if (!isAdmin) { return; } fetchUsers();\<close>
  The result is the new state and the tables that were queried.
\<close>

definition Users_effect ::
    "bool \<Rightarrow> pg_error + profile list \<Rightarrow> users_page \<Rightarrow> users_page \<times> string list" where
  "Users_effect admin response st =
     (if \<not> admin then (st, []) else (fetchUsers response st, [''profiles'']))"

datatype users_view = PermissionDenied | Spinner | UsersTable "profile list"

definition Users_render :: "bool \<Rightarrow> users_page \<Rightarrow> users_view" where
  "Users_render admin st =
     (if \<not> admin then PermissionDenied
      else if u_loading st then Spinner
      else UsersTable (users st))"

section \<open>The Projects page\<close>

record projects_page =
  pp_projects :: "project list"
  pp_users :: "profile list"
  pp_loading :: bool
  pp_modalOpen :: bool
  editingProject :: "project option"
  pp_formData :: project_form

definition fetchProjects :: "auth_context \<Rightarrow> projects_page app \<Rightarrow> projects_page app" where
  "fetchProjects auth w =
     (case select_projects (Authenticated (session_uid auth)) (db w) of
        Inl err \<Rightarrow>
          w\<lparr>page := (page w)\<lparr>pp_loading := False\<rparr>,
            console := console w @ [''Error fetching projects:'']\<rparr>
      | Inr data \<Rightarrow> w\<lparr>page := (page w)\<lparr>pp_projects := data, pp_loading := False\<rparr>\<rparr>)"

definition resetForm :: "projects_page \<Rightarrow> projects_page" where
  "resetForm st =
     st\<lparr>editingProject := None,
        pp_formData := \<lparr>pf_name = [], pf_description = [], pf_manager_id = [],
                        pf_start_date = [], pf_end_date = [], pf_status = ''planned''\<rparr>\<rparr>"

text \<open>
  \<open>handleSubmit\<close> of the project form: \<open>formData\<close> goes to the store unchanged, as an
  update of the project being edited or else as an insert.
\<close>

definition handleSubmit ::
    "pg_input \<Rightarrow> auth_context \<Rightarrow> uuid \<Rightarrow> projects_page app \<Rightarrow> projects_page app" where
  "handleSubmit pg auth new_id w =
     (case (case editingProject (page w) of
              Some p \<Rightarrow>
                update_project pg (Authenticated (session_uid auth)) (pr_id p)
                  (pp_formData (page w)) (db w)
            | None \<Rightarrow>
                insert_project pg (Authenticated (session_uid auth)) new_id
                  (pp_formData (page w)) (db w)) of
        Inl err \<Rightarrow> w\<lparr>console := console w @ [''Error saving project:'']\<rparr>
      | Inr d \<Rightarrow>
          fetchProjects auth
            (w\<lparr>db := d, page := resetForm ((page w)\<lparr>pp_modalOpen := False\<rparr>)\<rparr>))"

section \<open>The Calendar\<close>

text \<open>
  \<open>isSameDay\<close> of date-fns compares calendar days in local time; \<open>tz\<close> gives the offset
  of local time from UTC, in milliseconds, at an instant.
\<close>

definition local_day :: "(js_time \<Rightarrow> int) \<Rightarrow> js_time \<Rightarrow> int" where
  "local_day tz t = (t + tz t) div 86400000"

definition isSameDay :: "(js_time \<Rightarrow> int) \<Rightarrow> js_time \<Rightarrow> js_time \<Rightarrow> bool" where
  "isSameDay tz a b = (local_day tz a = local_day tz b)"

text \<open>
  \<^verbatim>\<open>
  tasks.filter((task) => {
    if (!task.end_date) return false;
    return isSameDay(new Date(task.end_date), date);
  })
  \<close>
\<close>

definition getTasksForDate :: "(js_time \<Rightarrow> int) \<Rightarrow> task list \<Rightarrow> js_time \<Rightarrow> task list" where
  "getTasksForDate tz ts day =
     filter (\<lambda>task. case t_end_date task of
                       None \<Rightarrow> False
                     | Some e \<Rightarrow> isSameDay tz (js_date_of_date e) day) ts"

text \<open>
  The \<open>Date\<close> of the calendar cell of a day, for a zone whose local time is always
  \<open>offset\<close> milliseconds ahead of UTC: local midnight of that day
  (\<open>eachDayOfInterval\<close> from \<open>startOfMonth\<close> to \<open>endOfMonth\<close>).
\<close>

definition cell_date :: "int \<Rightarrow> date \<Rightarrow> js_time" where
  "cell_date offset day = day * 86400000 - offset"

text \<open>
  \<open>fetchTasks\<close> of the calendar:
  \<^verbatim>\<open>.or(`assigned_to.eq.${profile?.id},created_by.eq.${profile?.id}`)
   .gte('end_date', start).lte('end_date', end)\<close>,
  where \<open>lo\<close> and \<open>hi\<close> are the two dates sent. The result is the new \<open>tasks\<close> state;
  when the query fails the error is logged and the state stays. A null \<open>end_date\<close>
  satisfies neither comparison.
\<close>

definition calendar_fetchTasks ::
    "auth_context \<Rightarrow> store \<Rightarrow> date \<Rightarrow> date \<Rightarrow> task list \<Rightarrow> task list" where
  "calendar_fetchTasks auth d lo hi old =
     (case (case profile auth of
              None \<Rightarrow> Inl InvalidTextRepresentation
            | Some p \<Rightarrow>
                select_tasks (Authenticated (session_uid auth))
                  (\<lambda>t. (t_assigned_to t = Some (p_id p) \<or> t_created_by t = p_id p)
                       \<and> (case t_end_date t of None \<Rightarrow> False | Some e \<Rightarrow> lo \<le> e \<and> e \<le> hi))
                  d) of
        Inl err \<Rightarrow> old
      | Inr data \<Rightarrow> data)"

section \<open>Properties and example data\<close>

text \<open>
  \<open>nearest_minute micros m\<close>: \<open>m\<close> is the length \<open>micros\<close> of an interval, given in
  microseconds, in minutes rounded to the nearest integer, a tie going away from zero.
\<close>

definition nearest_minute :: "int \<Rightarrow> int \<Rightarrow> bool" where
  "nearest_minute micros m =
     (2 * \<bar>micros\<bar> - 60000000 < 120000000 * \<bar>m\<bar>
      \<and> 120000000 * \<bar>m\<bar> \<le> 2 * \<bar>micros\<bar> + 60000000
      \<and> 0 \<le> m * micros)"

definition duration_is_rounded :: "time_log \<Rightarrow> bool" where
  "duration_is_rounded r =
     (case tl_end_time r of
        None \<Rightarrow> tl_duration_minutes r = None
      | Some e \<Rightarrow>
          (case tl_duration_minutes r of
             None \<Rightarrow> False
           | Some m \<Rightarrow> nearest_minute (e - tl_start_time r) m))"

text \<open>
  The rule in the words of the specification: the minutes in \<open>end_time - start_time\<close> as
  an integer truncated toward zero.
\<close>

definition spec_truncated_minutes :: "timestamptz \<Rightarrow> timestamptz \<Rightarrow> int" where
  "spec_truncated_minutes s e =
     (if s \<le> e then (e - s) div 60000000 else - ((s - e) div 60000000))"

text \<open>
  Example data: one employee, one task she created, and time logs of hers on that task.
  2025-01-01 is day 20089; 09:00:00 UTC on it is second 1735722000.
\<close>

definition demo_profile :: profile where
  "demo_profile = \<lparr>p_id = ''u1'', p_full_name = ''Ann'', p_email = ''ann@example.org'',
                    p_role = ''employee'', p_status = ''active''\<rparr>"

definition demo_task :: task where
  "demo_task = \<lparr>t_id = ''t1'', t_name = ''Write report'', t_description = None,
                 t_project_id = None, t_assigned_to = None, t_status = ''in_progress'',
                 t_start_date = None, t_end_date = None, t_created_by = ''u1''\<rparr>"

definition demo_store :: store where
  "demo_store = \<lparr>profiles = [demo_profile], projects = [], project_members = [],
                  tasks = [demo_task], time_logs = []\<rparr>"

definition demo_log ::
    "uuid \<Rightarrow> timestamptz \<Rightarrow> timestamptz option \<Rightarrow> int option \<Rightarrow> string \<Rightarrow> time_log" where
  "demo_log i s e m a =
     \<lparr>tl_id = i, tl_user_id = ''u1'', tl_task_id = ''t1'', tl_project_id = None,
      tl_start_time = s, tl_end_time = e, tl_duration_minutes = m, tl_date = 20089,
      tl_approval_status = a\<rparr>"

definition demo_auth :: auth_context where
  "demo_auth = \<lparr>session_uid = ''u1'', profile = Some demo_profile, isAdmin = False\<rparr>"

definition demo_page :: time_tracking where
  "demo_page = \<lparr>timeLogs = [], tt_tasks = [(''t1'', ''Write report'')], activeLog = None,
                 loading = False, modalOpen = False, elapsedTime = 0,
                 formData = \<lparr>f_task_id = [], f_start_time = [], f_end_time = [],
                              f_date = ''2025-01-01''\<rparr>\<rparr>"

definition demo_app :: tt_app where
  "demo_app = \<lparr>db = demo_store, page = demo_page, console = []\<rparr>"

text \<open>
  A store whose input functions read exactly these texts; \<open>'09:00'\<close> and the empty
  string are not among them.
\<close>

definition demo_pg :: pg_input where
  "demo_pg =
     \<lparr>uuid_in = map_of [(''t1'', ''t1''), (''u1'', ''u1'')],
      date_in = map_of [(''2025-01-01'', 20089)],
      timestamptz_in = map_of [(''2025-01-01T09:00:00Z'', 1735722000000000),
                               (''2025-01-01T09:01:30Z'', 1735722090000000)]\<rparr>"

definition demo_form :: manual_form where
  "demo_form = \<lparr>f_task_id = ''t1'', f_start_time = ''09:00'', f_end_time = ''09:30'',
                 f_date = ''2025-01-01''\<rparr>"

definition demo_insert :: time_log_insert where
  "demo_insert =
     \<lparr>ins_user_id = Some ''u1'', ins_task_id = Some ''t1'',
      ins_start_time = Some 1735722000000000, ins_end_time = Some 1735722090000000,
      ins_date = Some 20089, ins_approval_status = Some ''pending''\<rparr>"

text \<open>The example task with a due date and a status.\<close>

definition demo_due :: "date \<Rightarrow> string \<Rightarrow> task" where
  "demo_due day s = demo_task\<lparr>t_status := s, t_end_date := Some day\<rparr>"

definition demo_users_page :: users_page where
  "demo_users_page = \<lparr>users = [], u_loading = True, u_modalOpen = False, editingUser = None,
                       u_formData = \<lparr>uf_role = ''employee'', uf_status = ''active''\<rparr>\<rparr>"

text \<open>An administrator beside the employee, and updates of a profile.\<close>

definition demo_admin :: profile where
  "demo_admin = \<lparr>p_id = ''a1'', p_full_name = ''Bob'', p_email = ''bob@example.org'',
                  p_role = ''admin'', p_status = ''active''\<rparr>"

definition demo_update :: "string option \<Rightarrow> string option \<Rightarrow> string option \<Rightarrow> profile_update" where
  "demo_update n r s = \<lparr>upd_id = None, upd_full_name = n, upd_email = None, upd_role = r,
                         upd_status = s\<rparr>"

text \<open>The project form as an administrator submits it with only the name filled in.\<close>

definition demo_admin_auth :: auth_context where
  "demo_admin_auth = \<lparr>session_uid = ''a1'', profile = Some demo_admin, isAdmin = True\<rparr>"

definition demo_blank_form :: project_form where
  "demo_blank_form = \<lparr>pf_name = ''Website'', pf_description = [], pf_manager_id = [],
                       pf_start_date = [], pf_end_date = [], pf_status = ''planned''\<rparr>"

definition demo_projects_app :: "projects_page app" where
  "demo_projects_app =
     \<lparr>db = demo_store\<lparr>profiles := [demo_profile, demo_admin]\<rparr>,
      page = \<lparr>pp_projects = [], pp_users = [demo_admin], pp_loading = False,
              pp_modalOpen = True, editingProject = None, pp_formData = demo_blank_form\<rparr>,
      console = []\<rparr>"

text \<open>
  A zone five hours behind UTC, and a task due on 2025-01-15, which is day 20103.
\<close>

definition west5 :: "js_time \<Rightarrow> int" where
  "west5 t = - 18000000"

section \<open>Lemmas about the store\<close>

subsection \<open>The policies recurse\<close>

text \<open>
  "Admins can view all profiles" is a policy of \<open>profiles\<close> that sub-selects
  \<open>profiles\<close>, and the select policies of every other table sub-select \<open>profiles\<close>.
  So every sub-select in a policy, and every statement of a bound caller on a table
  that has a policy with a sub-select for it, stops with the recursion error.
\<close>

lemma recurses_Profiles: "recurses (Suc n) active Profiles"
  by (cases n) simp_all

lemma recurses_any: "recurses (Suc (Suc n)) active r"
proof -
  have "Profiles \<in> set (policy_subselects r SELECT)" by (cases r) simp_all
  moreover have "recurses (Suc n) (r # active) Profiles" by (rule recurses_Profiles)
  ultimately show ?thesis by (subst recurses.simps) blast
qed

lemma recurses_5: "recurses 5 active r"
proof -
  have "(5::nat) = Suc (Suc 3)" by simp
  then show ?thesis by (simp only: recurses_any)
qed

lemma subselect_refused: "subselect outer rel found = Inl InfiniteRecursion"
  by (simp add: subselect_def recurses_5)

lemma is_admin_refused: "is_admin outer d uid = Inl InfiniteRecursion"
  by (simp add: is_admin_def subselect_refused)

lemma policy_recursion_iff:
  "policy_recursion rel cmds \<longleftrightarrow> (\<exists>c \<in> set cmds. policy_subselects rel c \<noteq> [])"
proof -
  have "(\<exists>s. s \<in> set xs) = (xs \<noteq> [])" for xs :: "relation list"
    by (cases xs) auto
  then show ?thesis by (simp add: policy_recursion_def recurses_5 Bex_def)
qed

lemma row_security_Authenticated:
  assumes "c \<in> set cmds" and "policy_subselects rel c \<noteq> []"
  shows "row_security (Authenticated uid) rel cmds = Refused InfiniteRecursion"
  using assms by (auto simp: row_security_def policy_recursion_iff)

lemma insert_time_log_refused:
  "insert_time_log (Authenticated uid) new_id returning v d = Inl InfiniteRecursion"
  by (simp add: insert_time_log_def row_security_Authenticated[where c = INSERT])

lemma update_time_log_end_time_refused:
  "update_time_log_end_time (Authenticated uid) target e d = Inl InfiniteRecursion"
  by (simp add: update_time_log_end_time_def row_security_Authenticated[where c = UPDATE])

lemma select_time_logs_refused:
  "select_time_logs (Authenticated uid) cond d = Inl InfiniteRecursion"
  by (simp add: select_time_logs_def row_security_Authenticated[where c = SELECT])


lemma insert_project_refused:
  "insert_project pg (Authenticated uid) new_id v d = Inl InfiniteRecursion"
  by (simp add: insert_project_def row_security_Authenticated[where c = INSERT])

lemma update_project_refused:
  "update_project pg (Authenticated uid) target v d = Inl InfiniteRecursion"
  by (simp add: update_project_def row_security_Authenticated[where c = UPDATE])

lemma select_projects_refused:
  "select_projects (Authenticated uid) d = Inl InfiniteRecursion"
  by (simp add: select_projects_def row_security_Authenticated[where c = SELECT])

lemma select_tasks_refused:
  "select_tasks (Authenticated uid) cond d = Inl InfiniteRecursion"
  by (simp add: select_tasks_def row_security_Authenticated[where c = SELECT])

subsection \<open>Rounding in the duration trigger\<close>

lemma floor_half_nonneg:
  fixes q :: rat
  assumes "0 \<le> q"
  shows "q - 1 / 2 < of_int \<lfloor>q + 1 / 2\<rfloor>" "of_int \<lfloor>q + 1 / 2\<rfloor> \<le> q + 1 / 2" "0 \<le> \<lfloor>q + 1 / 2\<rfloor>"
proof -
  have a: "of_int \<lfloor>q + 1 / 2\<rfloor> \<le> q + 1 / 2" by (rule of_int_floor_le)
  have b: "q + 1 / 2 < of_int \<lfloor>q + 1 / 2\<rfloor> + 1" by linarith
  show "q - 1 / 2 < of_int \<lfloor>q + 1 / 2\<rfloor>" using b by linarith
  show "of_int \<lfloor>q + 1 / 2\<rfloor> \<le> q + 1 / 2" by (rule a)
  have "0 \<le> q + 1 / 2" using assms by simp
  then show "0 \<le> \<lfloor>q + 1 / 2\<rfloor>" by simp
qed

lemma numeric_to_int4_nearest:
  assumes "numeric_to_int4 q = Inr m"
  shows "\<bar>q\<bar> - 1 / 2 < of_int \<bar>m\<bar> \<and> of_int \<bar>m\<bar> \<le> \<bar>q\<bar> + 1 / 2 \<and> 0 \<le> of_int m * q"
proof (cases "0 \<le> q")
  case True
  with assms have m: "m = \<lfloor>q + 1 / 2\<rfloor>"
    by (simp add: numeric_to_int4_def Let_def split: if_splits)
  from floor_half_nonneg[OF True] m True show ?thesis by simp
next
  case False
  then have n: "0 \<le> - q" by simp
  from False assms have m: "m = - \<lfloor>- q + 1 / 2\<rfloor>"
    by (simp add: numeric_to_int4_def Let_def split: if_splits)
  have "0 \<le> (of_int \<lfloor>- q + 1 / 2\<rfloor> :: rat)" using floor_half_nonneg(3)[OF n] by simp
  then have "(of_int \<lfloor>- q + 1 / 2\<rfloor> :: rat) * q \<le> 0" using False
    by (intro mult_nonneg_nonpos) simp_all
  with floor_half_nonneg[OF n] m False show ?thesis
    by simp
qed

lemma nearest_minute_of_rat:
  fixes D m :: int
  assumes "\<bar>of_int D / 60000000\<bar> - 1 / 2 < (of_int \<bar>m\<bar> :: rat)"
      and "(of_int \<bar>m\<bar> :: rat) \<le> \<bar>of_int D / 60000000\<bar> + 1 / 2"
      and "0 \<le> (of_int m :: rat) * (of_int D / 60000000)"
  shows "nearest_minute D m"
proof -
  have 1: "(of_int (2 * \<bar>D\<bar> - 60000000) :: rat) < of_int (120000000 * \<bar>m\<bar>)"
    using assms(1) by (simp add: field_simps)
  have 2: "(of_int (120000000 * \<bar>m\<bar>) :: rat) \<le> of_int (2 * \<bar>D\<bar> + 60000000)"
    using assms(2) by (simp add: field_simps)
  have 3: "(0::rat) \<le> of_int (m * D)"
    using assms(3) by (simp add: zero_le_mult_iff zero_le_divide_iff)
  from 1 2 3 show ?thesis
    unfolding nearest_minute_def of_int_less_iff of_int_le_iff of_int_0_le_iff by simp
qed

lemma nearest_minute_unique:
  assumes "nearest_minute D m" and "nearest_minute D m'"
  shows "m = m'"
proof -
  have abs_eq: "\<bar>m\<bar> = \<bar>m'\<bar>"
    using assms unfolding nearest_minute_def by arith
  show ?thesis
  proof (cases "m = 0")
    case True
    with abs_eq show ?thesis by simp
  next
    case False
    then have "1 \<le> \<bar>m\<bar>" by simp
    with assms(1) have "D \<noteq> 0" unfolding nearest_minute_def by auto
    from assms have "0 \<le> m * D" "0 \<le> m' * D" unfolding nearest_minute_def by simp_all
    with \<open>D \<noteq> 0\<close> have "(0 \<le> m) = (0 \<le> m') \<or> m = 0 \<or> m' = 0"
      by (auto simp: zero_le_mult_iff)
    with abs_eq False show ?thesis by auto
  qed
qed

subsection \<open>Inserting and updating time logs\<close>

lemma calculate_time_log_duration_Inr:
  assumes "calculate_time_log_duration NEW = Inr r"
  shows "duration_is_rounded r" and "r = NEW\<lparr>tl_duration_minutes := tl_duration_minutes r\<rparr>"
proof -
  show "r = NEW\<lparr>tl_duration_minutes := tl_duration_minutes r\<rparr>"
    using assms by (auto simp: calculate_time_log_duration_def split: option.splits sum.splits)
  show "duration_is_rounded r"
  proof (cases "tl_end_time NEW")
    case None
    with assms show ?thesis
      by (auto simp: calculate_time_log_duration_def duration_is_rounded_def)
  next
    case (Some e)
    with assms obtain m where
      m: "numeric_to_int4 (extract_epoch (e - tl_start_time NEW) / 60) = Inr m"
      and r: "r = NEW\<lparr>tl_duration_minutes := Some m\<rparr>"
      by (auto simp: calculate_time_log_duration_def split: sum.splits)
    have q: "extract_epoch (e - tl_start_time NEW) / 60 = of_int (e - tl_start_time NEW) / 60000000"
      by (simp add: extract_epoch_def)
    from numeric_to_int4_nearest[OF m] have "nearest_minute (e - tl_start_time NEW) m"
      unfolding q by (intro nearest_minute_of_rat) simp_all
    with Some r show ?thesis by (simp add: duration_is_rounded_def)
  qed
qed

lemma insert_time_log_Inr:
  assumes "insert_time_log c i ret v d = Inr (d', row)"
  shows "\<exists>u k s dt. ins_user_id v = Some u \<and> ins_task_id v = Some k \<and> ins_start_time v = Some s
           \<and> ins_date v = Some dt
           \<and> calculate_time_log_duration
                \<lparr>tl_id = i, tl_user_id = u, tl_task_id = k, tl_project_id = None,
                 tl_start_time = s, tl_end_time = ins_end_time v,
                 tl_duration_minutes = None, tl_date = dt,
                 tl_approval_status =
                   (case ins_approval_status v of None \<Rightarrow> ''approved'' | Some a \<Rightarrow> a)\<rparr> = Inr row
           \<and> d' = d\<lparr>time_logs := time_logs d @ [row]\<rparr>"
  using assms unfolding insert_time_log_def
  by (auto split: option.splits sum.splits if_splits row_security.splits bool.splits)

lemma update_rows_Inr:
  "update_rows f rs = Inr rs' \<Longrightarrow> list_all2 (\<lambda>r r'. f r = Inr r') rs rs'"
  by (induction rs arbitrary: rs') (auto split: sum.splits)

lemma update_one_end_time_Inr:
  assumes "update_one_end_time d sec target e r = Inr r'"
  shows "r' = r \<or> calculate_time_log_duration (r\<lparr>tl_end_time := Some e\<rparr>) = Inr r'"
  using assms unfolding update_one_end_time_def
  by (auto split: if_splits sum.splits row_security.splits bool.splits)

lemma trigger_keeps_fields:
  assumes "calculate_time_log_duration NEW = Inr r"
  shows "tl_id r = tl_id NEW" "tl_user_id r = tl_user_id NEW" "tl_task_id r = tl_task_id NEW"
    "tl_project_id r = tl_project_id NEW" "tl_start_time r = tl_start_time NEW"
    "tl_end_time r = tl_end_time NEW" "tl_date r = tl_date NEW"
    "tl_approval_status r = tl_approval_status NEW"
    "tl_end_time NEW = None \<Longrightarrow> tl_duration_minutes r = None"
  using assms
  by (auto simp: calculate_time_log_duration_def split: option.splits sum.splits)

lemma inserted_row_fields:
  assumes "insert_time_log c i ret v d = Inr (d', row)"
  shows "tl_approval_status row = (case ins_approval_status v of None \<Rightarrow> ''approved'' | Some a \<Rightarrow> a)"
    and "tl_end_time row = ins_end_time v"
    and "ins_end_time v = None \<Longrightarrow> tl_duration_minutes row = None"
proof -
  from insert_time_log_Inr[OF assms] obtain u k s dt where
    t: "calculate_time_log_duration
                \<lparr>tl_id = i, tl_user_id = u, tl_task_id = k, tl_project_id = None,
                 tl_start_time = s, tl_end_time = ins_end_time v,
                 tl_duration_minutes = None, tl_date = dt,
                 tl_approval_status =
                   (case ins_approval_status v of None \<Rightarrow> ''approved'' | Some a \<Rightarrow> a)\<rparr> = Inr row"
    by blast
  from trigger_keeps_fields(6,8)[OF t]
  show "tl_approval_status row = (case ins_approval_status v of None \<Rightarrow> ''approved'' | Some a \<Rightarrow> a)"
    and "tl_end_time row = ins_end_time v"
    by simp_all
  from trigger_keeps_fields(9)[OF t]
  show "ins_end_time v = None \<Longrightarrow> tl_duration_minutes row = None" by simp
qed

lemma demo_owner_changes_role:
  "update_profiles TableOwner ''u1'' (demo_update None (Some ''project_manager'') None)
     (demo_store\<lparr>profiles := [demo_profile, demo_admin]\<rparr>)
   = Inr (demo_store\<lparr>profiles := [demo_profile\<lparr>p_role := ''project_manager''\<rparr>, demo_admin]\<rparr>)"
  by code_simp

section \<open>Lemmas about the pages\<close>

subsection \<open>Every request of a page is refused\<close>

lemma fetchTimeLogs_refused:
  "fetchTimeLogs auth w
   = w\<lparr>page := (page w)\<lparr>loading := False\<rparr>,
       console := console w @ [''Error fetching time logs:'']\<rparr>"
  by (simp add: fetchTimeLogs_def select_time_logs_refused split: option.splits)

lemma checkActiveLog_refused:
  "checkActiveLog auth w = w\<lparr>page := (page w)\<lparr>activeLog := None\<rparr>\<rparr>"
  by (simp add: checkActiveLog_def select_time_logs_refused split: option.splits)

lemma startTimer_refused:
  "startTimer auth taskId now new_id w = w\<lparr>console := console w @ [''Error starting timer:'']\<rparr>"
  by (simp add: startTimer_def insert_time_log_refused)

lemma stopTimer_refused:
  "stopTimer auth now w
   = (case activeLog (page w) of
        None \<Rightarrow> w
      | Some l \<Rightarrow> w\<lparr>console := console w @ [''Error stopping timer:'']\<rparr>)"
  by (simp add: stopTimer_def update_time_log_end_time_refused split: option.splits)

lemma handleManualEntry_refused:
  "handleManualEntry pg auth today new_id w
   = w\<lparr>console := console w @ [''Error adding manual entry:'']\<rparr>"
  by (simp add: handleManualEntry_def insert_time_log_refused split: option.splits)

lemma db_perform: "db (perform pg auth ev w) = db w"
  by (cases ev)
     (simp_all add: perform_def fetchTimeLogs_refused checkActiveLog_refused startTimer_refused
        stopTimer_refused handleManualEntry_refused split: option.splits)

lemma db_run: "db (run pg auth evs w) = db w"
  by (induction evs arbitrary: w) (simp_all add: db_perform)

lemma handleSubmit_refused:
  "handleSubmit pg auth new_id w = w\<lparr>console := console w @ [''Error saving project:'']\<rparr>"
  by (simp add: handleSubmit_def insert_project_refused update_project_refused
      split: option.splits)

lemma fetchProjects_refused:
  "fetchProjects auth w
   = w\<lparr>page := (page w)\<lparr>pp_loading := False\<rparr>,
       console := console w @ [''Error fetching projects:'']\<rparr>"
  by (simp add: fetchProjects_def select_projects_refused)

lemma calendar_fetchTasks_refused: "calendar_fetchTasks auth d lo hi old = old"
  by (simp add: calendar_fetchTasks_def select_tasks_refused split: option.splits)

subsection \<open>Dashboard and calendar\<close>

lemma overdue_count_card:
  "length (filter (is_overdue now) ts)
   = card {i. i < length ts
              \<and> (\<exists>day. t_end_date (ts ! i) = Some day \<and> js_date_of_date day < now)
              \<and> t_status (ts ! i) \<noteq> ''completed''}"
proof -
  have "{i. i < length ts \<and> is_overdue now (ts ! i)}
        = {i. i < length ts
              \<and> (\<exists>day. t_end_date (ts ! i) = Some day \<and> js_date_of_date day < now)
              \<and> t_status (ts ! i) \<noteq> ''completed''}"
    by (auto simp: is_overdue_def split: option.splits)
  then show ?thesis by (simp add: length_filter_conv_card)
qed

lemma yesterday_is_past:
  assumes "tz < 86400000"
  shows "js_date_of_date ((now + tz) div 86400000 - 1) < now"
proof -
  have "((now + tz) div 86400000) * 86400000 \<le> now + tz" by simp
  with assms show ?thesis by (simp add: js_date_of_date_def algebra_simps)
qed

lemma demo_overdue_values:
  "overdueTasks (dashboard_stats 1735722000000 (Some [demo_due 20088 ''in_progress'']) None None None) = 1"
  "overdueTasks (dashboard_stats 1735722000000 (Some [demo_due 20088 ''completed'']) None None None) = 0"
  by code_simp+

lemma running_row_adds_nothing:
  "totalTimeToday (dashboard_stats now fetched cnt projectCount (Some (None # ls)))
   = totalTimeToday (dashboard_stats now fetched cnt projectCount (Some ls))"
  by (simp add: dashboard_stats_def)

lemma demo_calendar:
  "getTasksForDate (\<lambda>t. 0) [demo_task, demo_due 20089 ''to_do''] 1735722000000
   = [demo_due 20089 ''to_do'']"
  by code_simp

section \<open>Properties of the specification\<close>

text \<open>
  C1, as stated: for every \<open>time_logs\<close> row after an insert or update, a non-null
  \<open>end_time\<close> gives \<open>duration_minutes\<close> equal to the minutes in
  \<open>end_time - start_time\<close> truncated toward zero, and start 09:00:00 with end 09:01:30
  stores 1. The trigger stores 2 for that row: the quotient 1.5 is cast to \<open>integer\<close>
  by rounding, where truncation gives 1.
\<close>

theorem C1_counterexample:
  "calculate_time_log_duration
     (demo_log ''l1'' 1735722000000000 (Some 1735722090000000) None ''approved'')
   = Inr (demo_log ''l1'' 1735722000000000 (Some 1735722090000000) (Some 2) ''approved'')
   \<and> spec_truncated_minutes 1735722000000000 1735722090000000 = 1
   \<and> tl_duration_minutes
         (demo_log ''l1'' 1735722000000000 (Some 1735722090000000) (Some 2) ''approved'')
       \<noteq> Some (spec_truncated_minutes 1735722000000000 1735722090000000)"
  by code_simp

text \<open>
  C1, amended: the trigger, and with it every insert and every update of \<open>end_time\<close>
  that the store accepts, leaves a row whose \<open>duration_minutes\<close> is null when
  \<open>end_time\<close> is null and otherwise is the length of \<open>end_time - start_time\<close> in
  minutes rounded to the nearest integer, a tie going away from zero; the trigger
  changes no other column.
\<close>

theorem C1_duration_rounded:
  "(calculate_time_log_duration NEW = Inr r \<longrightarrow>
      duration_is_rounded r \<and> r = NEW\<lparr>tl_duration_minutes := tl_duration_minutes r\<rparr>)
   \<and> (insert_time_log c i ret v d = Inr (d', row) \<longrightarrow>
        time_logs d' = time_logs d @ [row] \<and> duration_is_rounded row)
   \<and> (update_time_log_end_time c target e da = Inr d'' \<longrightarrow>
        list_all2 (\<lambda>old new. new = old \<or> duration_is_rounded new)
          (time_logs da) (time_logs d''))"
proof (intro conjI impI)
  assume a: "calculate_time_log_duration NEW = Inr r"
  show "duration_is_rounded r" by (rule calculate_time_log_duration_Inr(1)[OF a])
  show "r = NEW\<lparr>tl_duration_minutes := tl_duration_minutes r\<rparr>"
    by (rule calculate_time_log_duration_Inr(2)[OF a])
next
  assume a: "insert_time_log c i ret v d = Inr (d', row)"
  from insert_time_log_Inr[OF a] show "time_logs d' = time_logs d @ [row]" by auto
next
  assume a: "insert_time_log c i ret v d = Inr (d', row)"
  from insert_time_log_Inr[OF a] show "duration_is_rounded row"
    by (auto dest: calculate_time_log_duration_Inr(1))
next
  assume a: "update_time_log_end_time c target e da = Inr d''"
  then obtain sec where "list_all2 (\<lambda>r r'. update_one_end_time da sec target e r = Inr r')
               (time_logs da) (time_logs d'')"
    by (auto simp: update_time_log_end_time_def split: sum.splits row_security.splits
        dest: update_rows_Inr)
  then show "list_all2 (\<lambda>old new. new = old \<or> duration_is_rounded new)
               (time_logs da) (time_logs d'')"
    by (rule list_all2_mono)
       (auto dest!: update_one_end_time_Inr dest: calculate_time_log_duration_Inr(1))
qed

theorem C1_duration_rounded_witness:
  "calculate_time_log_duration
     (demo_log ''l1'' 1735722000000000 (Some 1735722090000000) None ''approved'')
     = Inr (demo_log ''l1'' 1735722000000000 (Some 1735722090000000) (Some 2) ''approved'')
   \<and> duration_is_rounded
        (demo_log ''l1'' 1735722000000000 (Some 1735722090000000) (Some 2) ''approved'')
   \<and> insert_time_log TableOwner ''l1'' False demo_insert demo_store
       = Inr (demo_store\<lparr>time_logs :=
                [demo_log ''l1'' 1735722000000000 (Some 1735722090000000) (Some 2) ''pending'']\<rparr>,
              demo_log ''l1'' 1735722000000000 (Some 1735722090000000) (Some 2) ''pending'')
   \<and> duration_is_rounded
        (demo_log ''l1'' 1735722000000000 (Some 1735722090000000) (Some 2) ''pending'')
   \<and> update_time_log_end_time TableOwner ''l1'' 1735722090000000
        (demo_store\<lparr>time_logs := [demo_log ''l1'' 1735722000000000 None None ''approved'']\<rparr>)
       = Inr (demo_store\<lparr>time_logs :=
                [demo_log ''l1'' 1735722000000000 (Some 1735722090000000) (Some 2) ''approved'']\<rparr>)
   \<and> list_all2 (\<lambda>old new. new = old \<or> duration_is_rounded new)
        (time_logs (demo_store\<lparr>time_logs :=
                      [demo_log ''l1'' 1735722000000000 None None ''approved'']\<rparr>))
        (time_logs (demo_store\<lparr>time_logs :=
                      [demo_log ''l1'' 1735722000000000 (Some 1735722090000000) (Some 2)
                         ''approved'']\<rparr>))"
proof -
  have h1: "calculate_time_log_duration
     (demo_log ''l1'' 1735722000000000 (Some 1735722090000000) None ''approved'')
     = Inr (demo_log ''l1'' 1735722000000000 (Some 1735722090000000) (Some 2) ''approved'')"
    by code_simp
  have h2: "insert_time_log TableOwner ''l1'' False demo_insert demo_store
       = Inr (demo_store\<lparr>time_logs :=
                [demo_log ''l1'' 1735722000000000 (Some 1735722090000000) (Some 2) ''pending'']\<rparr>,
              demo_log ''l1'' 1735722000000000 (Some 1735722090000000) (Some 2) ''pending'')"
    by code_simp
  have h3: "update_time_log_end_time TableOwner ''l1'' 1735722090000000
        (demo_store\<lparr>time_logs := [demo_log ''l1'' 1735722000000000 None None ''approved'']\<rparr>)
       = Inr (demo_store\<lparr>time_logs :=
                [demo_log ''l1'' 1735722000000000 (Some 1735722090000000) (Some 2) ''approved'']\<rparr>)"
    by code_simp
  note rounded = C1_duration_rounded[where
      NEW = "demo_log ''l1'' 1735722000000000 (Some 1735722090000000) None ''approved''"
      and r = "demo_log ''l1'' 1735722000000000 (Some 1735722090000000) (Some 2) ''approved''"
      and c = TableOwner and i = "''l1''" and ret = False and v = demo_insert and d = demo_store
      and d' = "demo_store\<lparr>time_logs :=
                [demo_log ''l1'' 1735722000000000 (Some 1735722090000000) (Some 2) ''pending'']\<rparr>"
      and row = "demo_log ''l1'' 1735722000000000 (Some 1735722090000000) (Some 2) ''pending''"
      and target = "''l1''" and e = 1735722090000000
      and da = "demo_store\<lparr>time_logs := [demo_log ''l1'' 1735722000000000 None None ''approved'']\<rparr>"
      and d'' = "demo_store\<lparr>time_logs :=
                [demo_log ''l1'' 1735722000000000 (Some 1735722090000000) (Some 2) ''approved'']\<rparr>"]
  have c1: "duration_is_rounded
        (demo_log ''l1'' 1735722000000000 (Some 1735722090000000) (Some 2) ''approved'')"
    using rounded[THEN conjunct1, THEN mp, OF h1] by (rule conjunct1)
  have c2: "duration_is_rounded
        (demo_log ''l1'' 1735722000000000 (Some 1735722090000000) (Some 2) ''pending'')"
    using rounded[THEN conjunct2, THEN conjunct1, THEN mp, OF h2] by (rule conjunct2)
  have c3: "list_all2 (\<lambda>old new. new = old \<or> duration_is_rounded new)
        (time_logs (demo_store\<lparr>time_logs :=
                      [demo_log ''l1'' 1735722000000000 None None ''approved'']\<rparr>))
        (time_logs (demo_store\<lparr>time_logs :=
                      [demo_log ''l1'' 1735722000000000 (Some 1735722090000000) (Some 2)
                         ''approved'']\<rparr>))"
    by (rule rounded[THEN conjunct2, THEN conjunct2, THEN mp, OF h3])
  show ?thesis
    by (rule conjI[OF h1 conjI[OF c1 conjI[OF h2 conjI[OF c2 conjI[OF h3 c3]]]]])
qed

text \<open>
  C2: the store refuses every \<open>startTimer\<close>, whatever the state, so also while the
  caller has a time log with a null \<open>end_time\<close>: the insert policy of \<open>time_logs\<close>
  reads \<open>tasks\<close>, whose policies read \<open>profiles\<close>, whose own policy reads
  \<open>profiles\<close> again. No action of the page changes the store, so a user who has at
  most one running time log before a sequence of actions has at most one after it.
  \<open>startTimer\<close> itself checks neither \<open>activeLog\<close> nor the table.
\<close>

theorem C2_start_is_refused:
  "startTimer auth taskId now new_id w
     = w\<lparr>console := console w @ [''Error starting timer:'']\<rparr>
   \<and> db (run pg auth evs w) = db w
   \<and> (length (running (db w) u) \<le> 1 \<longrightarrow>
        length (running (db (run pg auth evs w)) u) \<le> 1)"
  by (simp add: startTimer_refused db_run)

theorem C2_witness:
  "length (running
      (db (demo_app\<lparr>db := demo_store\<lparr>time_logs :=
             [demo_log ''l1'' 1735722000000000 None None ''approved'']\<rparr>\<rparr>)) ''u1'') \<le> 1
   \<and> length (running
        (db (run demo_pg demo_auth
               [ClickStart ''t1'' 1735722060000 ''l2'', CheckActiveLog,
                ClickStart ''t1'' 1735722120000 ''l3'', ClickStop 1735722180000]
               (demo_app\<lparr>db := demo_store\<lparr>time_logs :=
                  [demo_log ''l1'' 1735722000000000 None None ''approved'']\<rparr>\<rparr>))) ''u1'') \<le> 1"
proof -
  have a: "length (running
      (db (demo_app\<lparr>db := demo_store\<lparr>time_logs :=
             [demo_log ''l1'' 1735722000000000 None None ''approved'']\<rparr>\<rparr>)) ''u1'') \<le> 1"
    by code_simp
  show ?thesis
    by (rule conjI[OF a C2_start_is_refused[THEN conjunct2, THEN conjunct2, THEN mp, OF a]])
qed

text \<open>
  C3, at every submission of the manual entry form: the insert, which carries
  \<open>approval_status\<close> \<open>'pending'\<close>, is refused, no time log is created and the error is
  logged.
\<close>

theorem C3_manual_entry_is_refused:
  "handleManualEntry pg auth today new_id w
     = w\<lparr>console := console w @ [''Error adding manual entry:'']\<rparr>"
  by (rule handleManualEntry_refused)

theorem C3_witness:
  "handleManualEntry demo_pg demo_auth ''2025-01-02'' ''l1''
     (demo_app\<lparr>page := demo_page\<lparr>modalOpen := True, formData := demo_form\<rparr>\<rparr>)
   = (demo_app\<lparr>page := demo_page\<lparr>modalOpen := True, formData := demo_form\<rparr>\<rparr>)
       \<lparr>console :=
          console (demo_app\<lparr>page := demo_page\<lparr>modalOpen := True, formData := demo_form\<rparr>\<rparr>)
          @ [''Error adding manual entry:'']\<rparr>"
  by (rule C3_manual_entry_is_refused)

text \<open>
  C4: for every fetched list of tasks, \<open>overdueTasks\<close> is the number of tasks with a
  non-null \<open>end_date\<close> whose midnight (UTC) is before \<open>now\<close> and whose status is not
  \<open>'completed'\<close>. A task due yesterday, in any time zone less than a day ahead of UTC,
  adds 1 to the count unless its status is \<open>'completed'\<close>, when it adds 0.
\<close>

theorem C4_overdue_tasks:
  "overdueTasks (dashboard_stats now (Some ts) count projectCount logs)
     = card {i. i < length ts
                \<and> (\<exists>day. t_end_date (ts ! i) = Some day \<and> js_date_of_date day < now)
                \<and> t_status (ts ! i) \<noteq> ''completed''}
   \<and> (tz < 86400000 \<and> t_end_date t = Some ((now + tz) div 86400000 - 1) \<longrightarrow>
        overdueTasks (dashboard_stats now (Some (t # ts)) count projectCount logs)
          = overdueTasks (dashboard_stats now (Some ts) count projectCount logs)
            + (if t_status t = ''completed'' then 0 else 1))"
proof (intro conjI impI)
  show "overdueTasks (dashboard_stats now (Some ts) count projectCount logs)
     = card {i. i < length ts
                \<and> (\<exists>day. t_end_date (ts ! i) = Some day \<and> js_date_of_date day < now)
                \<and> t_status (ts ! i) \<noteq> ''completed''}"
    by (simp add: dashboard_stats_def overdue_count_card)
next
  assume a: "tz < 86400000 \<and> t_end_date t = Some ((now + tz) div 86400000 - 1)"
  then have "is_overdue now t = (t_status t \<noteq> ''completed'')"
    using yesterday_is_past[of tz now] by (simp add: is_overdue_def)
  then show "overdueTasks (dashboard_stats now (Some (t # ts)) count projectCount logs)
          = overdueTasks (dashboard_stats now (Some ts) count projectCount logs)
            + (if t_status t = ''completed'' then 0 else 1)"
    by (simp add: dashboard_stats_def)
qed

theorem C4_witness:
  "(0::int) < 86400000
   \<and> t_end_date (demo_due 20088 ''in_progress'') = Some ((1735722000000 + 0) div 86400000 - 1)
   \<and> overdueTasks (dashboard_stats 1735722000000 (Some [demo_due 20088 ''in_progress'']) None None None)
       = overdueTasks (dashboard_stats 1735722000000 (Some []) None None None)
         + (if t_status (demo_due 20088 ''in_progress'') = ''completed'' then 0 else 1)
   \<and> t_end_date (demo_due 20088 ''completed'') = Some ((1735722000000 + 0) div 86400000 - 1)
   \<and> overdueTasks (dashboard_stats 1735722000000 (Some [demo_due 20088 ''completed'']) None None None)
       = overdueTasks (dashboard_stats 1735722000000 (Some []) None None None)
         + (if t_status (demo_due 20088 ''completed'') = ''completed'' then 0 else 1)"
proof -
  have z: "(0::int) < 86400000" by simp
  have a: "t_end_date (demo_due 20088 ''in_progress'') = Some ((1735722000000 + 0) div 86400000 - 1)"
    by (simp add: demo_due_def)
  have b: "t_end_date (demo_due 20088 ''completed'') = Some ((1735722000000 + 0) div 86400000 - 1)"
    by (simp add: demo_due_def)
  note c = C4_overdue_tasks[where tz = 0 and now = 1735722000000 and ts = "[]" and count = None
      and projectCount = None and logs = None, THEN conjunct2, THEN mp]
  show ?thesis
    by (rule conjI[OF z conjI[OF a conjI[OF c[OF conjI[OF z a]] conjI[OF b c[OF conjI[OF z b]]]]]])
qed



text \<open>
  C6: for a profile with role \<open>'employee'\<close> the menu keeps Dashboard, Projects, Tasks,
  Time Tracking and Calendar, so neither Reports nor Users; and for a caller who is not
  an admin the Users page renders the permission-denied view and its effect queries no
  table and leaves the state as it was.
\<close>

theorem C6_employee_sees_no_admin_views:
  "(p_role p = ''employee'' \<longrightarrow>
      map label (filteredNavItems (Some p))
        = [''Dashboard'', ''Projects'', ''Tasks'', ''Time Tracking'', ''Calendar''])
   \<and> (\<not> admin \<longrightarrow>
        Users_render admin st = PermissionDenied \<and> Users_effect admin response st = (st, []))"
  by (simp add: filteredNavItems_def role_or_employee_def navItems_def Users_render_def
      Users_effect_def)

theorem C6_witness:
  "p_role demo_profile = ''employee''
   \<and> map label (filteredNavItems (Some demo_profile))
        = [''Dashboard'', ''Projects'', ''Tasks'', ''Time Tracking'', ''Calendar'']
   \<and> \<not> isAdmin demo_auth
   \<and> Users_render (isAdmin demo_auth) demo_users_page = PermissionDenied
   \<and> Users_effect (isAdmin demo_auth) (Inr [demo_profile]) demo_users_page = (demo_users_page, [])"
proof -
  have a: "p_role demo_profile = ''employee''" by (simp add: demo_profile_def)
  have b: "\<not> isAdmin demo_auth" by (simp add: demo_auth_def)
  show ?thesis
    by (rule conjI[OF a conjI[OF C6_employee_sees_no_admin_views[THEN conjunct1, THEN mp, OF a]
          conjI[OF b C6_employee_sees_no_admin_views[THEN conjunct2, THEN mp, OF b]]]])
qed

text \<open>
  C7, at the project form submitted by an administrator with only the name filled in:
  whatever the store's input functions are, either nothing is created and the error is
  logged, or the project is created with the description \<open>''\<close> and with a manager and
  two dates that are not null. The blank fields never come back as null.
\<close>

theorem C7_blank_form_stores_no_null:
  "handleSubmit pg demo_admin_auth ''p1'' demo_projects_app
     = demo_projects_app\<lparr>console := [''Error saving project:'']\<rparr>
   \<or> (\<exists>m s e. projects (db (handleSubmit pg demo_admin_auth ''p1'' demo_projects_app))
                 = [\<lparr>pr_id = ''p1'', pr_name = ''Website'', pr_description = Some [],
                     pr_manager_id = Some m, pr_start_date = Some s, pr_end_date = Some e,
                     pr_status = ''planned''\<rparr>])"
  by (rule disjI1) (simp add: handleSubmit_refused demo_projects_app_def)

text \<open>
  C8: a task with a null \<open>end_date\<close> is returned by \<open>getTasksForDate\<close> for no day.
  The cell of a task that has an \<open>end_date\<close> is not always that date: the date is
  read as midnight UTC and compared in local time, so five hours west of UTC a task due
  on 2025-01-15 is missing from the cell of the 15th and shown in the cell of the 14th.
\<close>

theorem C8_calendar_cells:
  "(t_end_date t = None \<longrightarrow> t \<notin> set (getTasksForDate tz ts day))
   \<and> getTasksForDate west5 [demo_due 20103 ''to_do''] (cell_date (- 18000000) 20103) = []
   \<and> getTasksForDate west5 [demo_due 20103 ''to_do''] (cell_date (- 18000000) 20102)
       = [demo_due 20103 ''to_do'']"
proof (intro conjI impI)
  assume "t_end_date t = None"
  then show "t \<notin> set (getTasksForDate tz ts day)"
    by (simp add: getTasksForDate_def)
next
  show "getTasksForDate west5 [demo_due 20103 ''to_do''] (cell_date (- 18000000) 20103) = []"
    by code_simp
next
  show "getTasksForDate west5 [demo_due 20103 ''to_do''] (cell_date (- 18000000) 20102)
        = [demo_due 20103 ''to_do'']"
    by code_simp
qed

theorem C8_witness:
  "t_end_date demo_task = None
   \<and> demo_task \<notin> set (getTasksForDate (\<lambda>t. 0) [demo_task, demo_due 20089 ''to_do''] 1735722000000)"
proof -
  have a: "t_end_date demo_task = None" by (simp add: demo_task_def)
  show ?thesis
    by (rule conjI[OF a C8_calendar_cells[THEN conjunct1, THEN mp, OF a]])
qed

text \<open>
  C9, at every click on a start button: the insert is refused, no time log is created,
  \<open>activeLog\<close> stays as it was and the error is logged. The insert carries no
  \<open>approval_status\<close>, and for a caller whom the policies do not bind an insert without
  that key and without \<open>end_time\<close> leaves a row with \<open>approval_status\<close>
  \<open>'approved'\<close>, no \<open>end_time\<close> and no \<open>duration_minutes\<close>; such a row adds nothing
  to \<open>totalTimeToday\<close>.
\<close>

theorem C9_start_creates_no_time_log:
  "startTimer auth taskId now new_id w
     = w\<lparr>console := console w @ [''Error starting timer:'']\<rparr>
   \<and> (ins_approval_status v = None \<and> ins_end_time v = None
        \<and> insert_time_log TableOwner i ret v d = Inr (d', row) \<longrightarrow>
        tl_approval_status row = ''approved'' \<and> tl_end_time row = None
        \<and> tl_duration_minutes row = None)
   \<and> totalTimeToday (dashboard_stats t fetched cnt projectCount (Some (None # ls)))
       = totalTimeToday (dashboard_stats t fetched cnt projectCount (Some ls))"
proof (intro conjI impI)
  show "startTimer auth taskId now new_id w
        = w\<lparr>console := console w @ [''Error starting timer:'']\<rparr>"
    by (rule startTimer_refused)
next
  assume a: "ins_approval_status v = None \<and> ins_end_time v = None
             \<and> insert_time_log TableOwner i ret v d = Inr (d', row)"
  then have i: "insert_time_log TableOwner i ret v d = Inr (d', row)" by simp
  from inserted_row_fields[OF i] a
  show "tl_approval_status row = ''approved''" "tl_end_time row = None"
    "tl_duration_minutes row = None"
    by simp_all
next
  show "totalTimeToday (dashboard_stats t fetched cnt projectCount (Some (None # ls)))
        = totalTimeToday (dashboard_stats t fetched cnt projectCount (Some ls))"
    by (rule running_row_adds_nothing)
qed

theorem C9_witness:
  "(ins_approval_status (demo_insert\<lparr>ins_end_time := None, ins_approval_status := None\<rparr>) = None
    \<and> ins_end_time (demo_insert\<lparr>ins_end_time := None, ins_approval_status := None\<rparr>) = None
    \<and> insert_time_log TableOwner ''l1'' True
          (demo_insert\<lparr>ins_end_time := None, ins_approval_status := None\<rparr>) demo_store
        = Inr (demo_store\<lparr>time_logs := [demo_log ''l1'' 1735722000000000 None None ''approved'']\<rparr>,
               demo_log ''l1'' 1735722000000000 None None ''approved''))
   \<and> tl_approval_status (demo_log ''l1'' 1735722000000000 None None ''approved'') = ''approved''
   \<and> tl_end_time (demo_log ''l1'' 1735722000000000 None None ''approved'') = None
   \<and> tl_duration_minutes (demo_log ''l1'' 1735722000000000 None None ''approved'') = None"
proof -
  have a: "ins_approval_status (demo_insert\<lparr>ins_end_time := None, ins_approval_status := None\<rparr>) = None
    \<and> ins_end_time (demo_insert\<lparr>ins_end_time := None, ins_approval_status := None\<rparr>) = None
    \<and> insert_time_log TableOwner ''l1'' True
          (demo_insert\<lparr>ins_end_time := None, ins_approval_status := None\<rparr>) demo_store
        = Inr (demo_store\<lparr>time_logs := [demo_log ''l1'' 1735722000000000 None None ''approved'']\<rparr>,
               demo_log ''l1'' 1735722000000000 None None ''approved'')"
    by code_simp
  show ?thesis
    by (rule conjI[OF a C9_start_creates_no_time_log[THEN conjunct2, THEN conjunct1, THEN mp, OF a]])
qed

text \<open>
  C10: \<open>stopTimer\<close> with a null \<open>activeLog\<close> returns at once: the store, the state of
  the page and the console are what they were.
\<close>

theorem C10_stop_idle_noop:
  "activeLog (page w) = None \<Longrightarrow> stopTimer auth now w = w"
  by (simp add: stopTimer_def)

theorem C10_witness:
  "activeLog (page demo_app) = None \<and> stopTimer demo_auth 1735722090000 demo_app = demo_app"
proof -
  have a: "activeLog (page demo_app) = None" by (simp add: demo_app_def demo_page_def)
  show ?thesis by (rule conjI[OF a C10_stop_idle_noop[OF a]])
qed

end
